theory Spec2Isabelle
  imports Complex_Main "HOL-Library.Char_ord" "HOL-Library.List_Lexorder" "HOL-Library.Sublist"
begin

section \<open>Python values\<close>

text \<open>
  The reporting toolkit passes test results around either as \<open>TestResult\<close> objects
  (the aggregator) or as plain dictionaries (metrics, analytics, notifications).
  A dictionary is an association list in insertion order, looked up with \<open>map_of\<close>.
  Python floats are modelled by the real numbers they stand for.
\<close>

datatype pyval =
    PNone
  | PBool bool
  | PInt int
  | PFloat real
  | PStr string
  | PList "pyval list"
  | PDict "(string \<times> pyval) list"

type_synonym pydict = "(string \<times> pyval) list"

datatype exn = TypeError | ValueError

text \<open>\<open>d.get(k, default)\<close>\<close>

definition dict_get :: "pydict \<Rightarrow> string \<Rightarrow> pyval \<Rightarrow> pyval" where
  "dict_get d k dflt = (case map_of d k of None \<Rightarrow> dflt | Some v \<Rightarrow> v)"

text \<open>\<open>d[k] = v\<close>: an existing key keeps its position, a new key goes last.\<close>

fun dict_set :: "('k \<times> 'v) list \<Rightarrow> 'k \<Rightarrow> 'v \<Rightarrow> ('k \<times> 'v) list" where
  "dict_set [] k v = [(k, v)]"
| "dict_set ((k', v') # d) k v = (if k' = k then (k, v) # d else (k', v') # dict_set d k v)"

section \<open>Clock readings and parsed timestamps\<close>

text \<open>
  A \<open>datetime\<close> is its wall-clock reading in microseconds since 0001-01-01T00:00:00
  (a Monday) and, for an aware value, its UTC offset in microseconds. \<open>datetime.now()\<close>
  is naive. Ordering a naive against an aware value raises \<open>TypeError\<close>.
  \<open>datetime.fromisoformat\<close> belongs to the Python library, not to the repository: the
  functions below take it as the parameter \<open>fromisoformat\<close>, where \<open>None\<close> stands for
  the \<open>ValueError\<close> it raises on text it cannot parse.
\<close>

record datetime =
  wall :: int
  utcoffset :: "int option"

definition dt_ge :: "datetime \<Rightarrow> datetime \<Rightarrow> exn + bool" where
  "dt_ge a b =
     (case (utcoffset a, utcoffset b) of
        (None, None) \<Rightarrow> Inr (wall b \<le> wall a)
      | (Some oa, Some ob) \<Rightarrow> Inr (wall b - ob \<le> wall a - oa)
      | _ \<Rightarrow> Inl TypeError)"

definition timedelta_hours :: "int \<Rightarrow> int" where
  "timedelta_hours h = h * 3600 * 1000000"

definition timedelta_days :: "int \<Rightarrow> int" where
  "timedelta_days d = d * 86400 * 1000000"

definition dt_sub :: "datetime \<Rightarrow> int \<Rightarrow> datetime" where
  "dt_sub t delta = t\<lparr>wall := wall t - delta\<rparr>"

definition weekday :: "datetime \<Rightarrow> int" where
  "weekday t = (wall t div 86400000000) mod 7"

text \<open>\<open>s.replace('Z', '+00:00')\<close>\<close>

definition replace_Z :: "string \<Rightarrow> string" where
  "replace_Z s = concat (map (\<lambda>c. if c = CHR ''Z'' then ''+00:00'' else [c]) s)"

section \<open>The aggregator (test_aggregator.py)\<close>

text \<open>
  A \<open>TestResult\<close>, its fields typed as the class documents them: texts for the
  identifiers, the status and the timestamp, a number for the duration.
\<close>

record test_result =
  test_id :: string
  name :: string
  suite :: string
  category :: string
  status :: string
  duration :: real
  timestamp :: string
  message :: string
  error_details :: string
  tags :: "string list"
  priority :: string
  browser :: string
  os :: string
  test_type :: string
  retry_count :: int
  custom_fields :: pydict

record aggregator =
  results :: "test_result list"
  source_files :: "string list"
  aggregation_metadata :: pydict

text \<open>\<open>collections.Counter\<close> over an iterable: keys in order of first occurrence.\<close>

fun counter_add :: "'a \<Rightarrow> ('a \<times> nat) list \<Rightarrow> ('a \<times> nat) list" where
  "counter_add k [] = [(k, 1)]"
| "counter_add k ((k', n) # c) =
     (if k' = k then (k', Suc n) # c else (k', n) # counter_add k c)"

definition Counter :: "'a list \<Rightarrow> ('a \<times> nat) list" where
  "Counter xs = fold counter_add xs []"

text \<open>\<open>counts.get(k, 0)\<close>\<close>

definition counter_get :: "('a \<times> nat) list \<Rightarrow> 'a \<Rightarrow> nat" where
  "counter_get c k = (case map_of c k of None \<Rightarrow> 0 | Some n \<Rightarrow> n)"

subsection \<open>\<open>_get_recent_results\<close> and \<open>_calculate_trends\<close>\<close>

text \<open>
  The loop of \<open>_get_recent_results\<close> appends a result when its parsed time is at or
  after the cutoff, and also when parsing the timestamp or the comparison raises
  \<open>ValueError\<close> or \<open>TypeError\<close>.
\<close>

definition recent_keep :: "(string \<Rightarrow> datetime option) \<Rightarrow> datetime \<Rightarrow> test_result \<Rightarrow> bool" where
  "recent_keep fromisoformat cutoff_time r =
     (case fromisoformat (replace_Z (timestamp r)) of
        None \<Rightarrow> True
      | Some result_time \<Rightarrow>
          (case dt_ge result_time cutoff_time of
             Inl e \<Rightarrow> True
           | Inr b \<Rightarrow> b))"

definition get_recent_results ::
  "(string \<Rightarrow> datetime option) \<Rightarrow> datetime \<Rightarrow> int \<Rightarrow> test_result list \<Rightarrow> test_result list" where
  "get_recent_results fromisoformat now hours rs =
     (let cutoff_time = dt_sub now (timedelta_hours hours)
      in filter (recent_keep fromisoformat cutoff_time) rs)"

datatype recent_trends =
    No_data
  | Recent (total_recent: nat) (pass_rate_recent: real) (recent_status_breakdown: "(string \<times> nat) list")

definition calculate_trends :: "test_result list \<Rightarrow> recent_trends" where
  "calculate_trends recent_results =
     (if recent_results = [] then No_data
      else
        let status_counts = Counter (map status recent_results);
            total_recent = length recent_results;
            pass_rate_recent =
              (if total_recent > 0
               then real (counter_get status_counts ''PASSED'') / real total_recent * 100
               else 0)
        in Recent total_recent pass_rate_recent status_counts)"

subsection \<open>\<open>get_summary\<close>\<close>

text \<open>
  The summary of an empty aggregator has the eight basic keys only; otherwise six more
  keys are present, here the \<open>details\<close>. \<open>last_updated\<close> holds the clock reading whose
  \<open>isoformat()\<close> text the source stores. A call reads the clock for the cutoff of the
  recent results and again for \<open>last_updated\<close>; both reads are the argument \<open>now\<close>.
  The aggregator is only read.
\<close>

record summary_details =
  suite_breakdown :: "(string \<times> nat) list"
  category_breakdown :: "(string \<times> nat) list"
  status_breakdown :: "(string \<times> nat) list"
  recent_trends :: recent_trends
  summary_source_files :: "string list"
  last_updated :: datetime

record summary =
  total_tests :: nat
  passed :: nat
  failed :: nat
  skipped :: nat
  errors :: nat
  pass_rate :: real
  total_duration :: real
  avg_duration :: real
  details :: "summary_details option"

definition get_summary :: "(string \<Rightarrow> datetime option) \<Rightarrow> datetime \<Rightarrow> aggregator \<Rightarrow> summary" where
  "get_summary fromisoformat now self =
     (if results self = [] then
        \<lparr>total_tests = 0, passed = 0, failed = 0, skipped = 0, errors = 0,
         pass_rate = 0, total_duration = 0, avg_duration = 0, details = None\<rparr>
      else
        let status_counts = Counter (map status (results self));
            n = length (results self);
            n_passed = counter_get status_counts ''PASSED'';
            n_failed = counter_get status_counts ''FAILED'';
            n_skipped = counter_get status_counts ''SKIPPED'';
            n_errors = counter_get status_counts ''ERROR'';
            duration_sum = sum_list (map duration (results self));
            avg = (if n > 0 then duration_sum / real n else 0);
            rate = (if n > 0 then real n_passed / real n * 100 else 0);
            suite_counts = Counter (map suite (results self));
            category_counts = Counter (map category (results self));
            recent_results = get_recent_results fromisoformat now 24 (results self)
        in \<lparr>total_tests = n, passed = n_passed, failed = n_failed, skipped = n_skipped,
            errors = n_errors, pass_rate = rate, total_duration = duration_sum,
            avg_duration = avg,
            details = Some
              \<lparr>suite_breakdown = suite_counts,
               category_breakdown = category_counts,
               status_breakdown = status_counts,
               recent_trends = calculate_trends recent_results,
               summary_source_files = source_files self,
               last_updated = now\<rparr>\<rparr>)"

subsection \<open>Filters and \<open>get_slowest_tests\<close>\<close>

text \<open>
  \<open>str.upper()\<close> belongs to the Python library and folds the letters of every script,
  not only a to z; it is the parameter \<open>upper\<close>. A string is the list of the UTF-8
  bytes of its text.
\<close>

definition get_tests_by_status ::
  "(string \<Rightarrow> string) \<Rightarrow> string \<Rightarrow> aggregator \<Rightarrow> test_result list" where
  "get_tests_by_status upper st self =
     filter (\<lambda>result. upper (status result) = upper st) (results self)"

text \<open>
  ASCII text, and what \<open>str.upper()\<close> is on ASCII text: the letters a to z move to A to
  Z, every other character stays.
\<close>

definition is_ascii :: "string \<Rightarrow> bool" where
  "is_ascii s = list_all (\<lambda>c. (of_char c :: nat) < 128) s"

definition ascii_upper_char :: "char \<Rightarrow> char" where
  "ascii_upper_char c =
     (let n = (of_char c :: nat) in if 97 \<le> n \<and> n \<le> 122 then char_of (n - 32) else c)"

definition ascii_upper :: "string \<Rightarrow> string" where
  "ascii_upper s = map ascii_upper_char s"

text \<open>
  Equality of two strings up to ASCII case, said without any upper-casing: the strings
  have the same length and, position by position, the characters are equal or are the
  lower and upper case form of the same letter of a to z.
\<close>

definition same_char_ignoring_case :: "char \<Rightarrow> char \<Rightarrow> bool" where
  "same_char_ignoring_case a b =
     (let m = (of_char a :: nat); n = (of_char b :: nat)
      in a = b \<or> (97 \<le> m \<and> m \<le> 122 \<and> n + 32 = m) \<or> (97 \<le> n \<and> n \<le> 122 \<and> m + 32 = n))"

definition equal_ignoring_case :: "string \<Rightarrow> string \<Rightarrow> bool" where
  "equal_ignoring_case s t = list_all2 same_char_ignoring_case s t"

text \<open>
  \<open>sorted(xs, key=key, reverse=True)\<close>: CPython reverses the list, sorts it with its
  stable sort and reverses the outcome. \<open>xs[:limit]\<close> counts a negative limit from the
  end.
\<close>

definition sorted_reverse :: "('a \<Rightarrow> 'k::linorder) \<Rightarrow> 'a list \<Rightarrow> 'a list" where
  "sorted_reverse key xs = rev (sort_key key (rev xs))"

definition slice_to :: "int \<Rightarrow> 'a list \<Rightarrow> 'a list" where
  "slice_to limit xs =
     (if limit < 0 then take (nat (int (length xs) + limit)) xs else take (nat limit) xs)"

definition get_slowest_tests :: "int \<Rightarrow> aggregator \<Rightarrow> test_result list" where
  "get_slowest_tests limit self = slice_to limit (sorted_reverse duration (results self))"

subsection \<open>\<open>get_trends_over_time\<close>\<close>

text \<open>
  \<open>strftime\<close> is the library's formatter, a parameter like \<open>fromisoformat\<close>. The
  \<open>defaultdict\<close> of period data is an association list in insertion order.
\<close>

record bucket =
  bucket_total :: nat
  bucket_passed :: nat
  bucket_failed :: nat
  bucket_skipped :: nat

definition new_bucket :: bucket where
  "new_bucket = \<lparr>bucket_total = 0, bucket_passed = 0, bucket_failed = 0, bucket_skipped = 0\<rparr>"

definition defaultdict_get :: "(string \<times> bucket) list \<Rightarrow> string \<Rightarrow> bucket" where
  "defaultdict_get d k = (case map_of d k of None \<Rightarrow> new_bucket | Some b \<Rightarrow> b)"

definition period_key :: "(datetime \<Rightarrow> string \<Rightarrow> string) \<Rightarrow> string \<Rightarrow> datetime \<Rightarrow> string" where
  "period_key strftime period result_time =
     (if period = ''hourly'' then strftime result_time ''%Y-%m-%d %H:00''
      else if period = ''daily'' then strftime result_time ''%Y-%m-%d''
      else if period = ''weekly'' then
        (let monday = dt_sub result_time (timedelta_days (weekday result_time))
         in strftime monday ''%Y-%m-%d'')
      else strftime result_time ''%Y-%m-%d'')"

definition bucket_count :: "string \<Rightarrow> bucket \<Rightarrow> bucket" where
  "bucket_count st b =
     (let b1 = b\<lparr>bucket_total := bucket_total b + 1\<rparr>
      in if st = ''PASSED'' then b1\<lparr>bucket_passed := bucket_passed b1 + 1\<rparr>
         else if st = ''FAILED'' then b1\<lparr>bucket_failed := bucket_failed b1 + 1\<rparr>
         else if st = ''SKIPPED'' then b1\<lparr>bucket_skipped := bucket_skipped b1 + 1\<rparr>
         else b1)"

text \<open>One turn of the loop: a timestamp that does not parse is skipped (\<open>continue\<close>).\<close>

definition period_step ::
  "(string \<Rightarrow> datetime option) \<Rightarrow> (datetime \<Rightarrow> string \<Rightarrow> string) \<Rightarrow> string \<Rightarrow>
   test_result \<Rightarrow> (string \<times> bucket) list \<Rightarrow> (string \<times> bucket) list" where
  "period_step fromisoformat strftime period result period_data =
     (case fromisoformat (replace_Z (timestamp result)) of
        None \<Rightarrow> period_data
      | Some result_time \<Rightarrow>
          (let key = period_key strftime period result_time
           in dict_set period_data key
                (bucket_count (status result) (defaultdict_get period_data key))))"

definition group_by_period ::
  "(string \<Rightarrow> datetime option) \<Rightarrow> (datetime \<Rightarrow> string \<Rightarrow> string) \<Rightarrow> string \<Rightarrow>
   test_result list \<Rightarrow> (string \<times> bucket) list" where
  "group_by_period fromisoformat strftime period rs =
     fold (period_step fromisoformat strftime period) rs []"

record trend =
  trend_period :: string
  trend_total :: nat
  trend_passed :: nat
  trend_failed :: nat
  trend_skipped :: nat
  trend_pass_rate :: real

definition trend_of :: "(string \<times> bucket) list \<Rightarrow> string \<Rightarrow> trend" where
  "trend_of period_data key =
     (let data = defaultdict_get period_data key
      in \<lparr>trend_period = key,
          trend_total = bucket_total data,
          trend_passed = bucket_passed data,
          trend_failed = bucket_failed data,
          trend_skipped = bucket_skipped data,
          trend_pass_rate =
            (if bucket_total data > 0
             then real (bucket_passed data) / real (bucket_total data) * 100 else 0)\<rparr>)"

definition trends_list ::
  "(string \<Rightarrow> datetime option) \<Rightarrow> (datetime \<Rightarrow> string \<Rightarrow> string) \<Rightarrow> string \<Rightarrow>
   test_result list \<Rightarrow> trend list" where
  "trends_list fromisoformat strftime period rs =
     (let period_data = group_by_period fromisoformat strftime period rs;
          sorted_periods = sort (map fst period_data)
      in map (trend_of period_data) sorted_periods)"

record trends_report =
  report_period :: string
  trends :: "trend list"
  periods_analyzed :: nat
  total_executions :: nat
  overall_pass_rate :: real

text \<open>\<open>None\<close> is the empty dictionary returned for an aggregator without results.\<close>

definition get_trends_over_time ::
  "(string \<Rightarrow> datetime option) \<Rightarrow> (datetime \<Rightarrow> string \<Rightarrow> string) \<Rightarrow> string \<Rightarrow>
   aggregator \<Rightarrow> trends_report option" where
  "get_trends_over_time fromisoformat strftime period self =
     (if results self = [] then None
      else
        let ts = trends_list fromisoformat strftime period (results self);
            executions = sum_list (map trend_total ts)
        in Some
          \<lparr>report_period = period,
           trends = ts,
           periods_analyzed = length ts,
           total_executions = executions,
           overall_pass_rate =
             (if executions > 0
              then real (sum_list (map trend_passed ts)) / real executions * 100 else 0)\<rparr>)"

subsection \<open>JUnit XML test cases (\<open>_load_from_xml\<close>)\<close>

text \<open>
  An element of the parsed tree. \<open>testcase.find(t)\<close> is the first direct child with
  tag \<open>t\<close>; \<open>float\<close> of an attribute text is the library's and is the parameter
  \<open>float_of_str\<close>, \<open>None\<close> standing for its \<open>ValueError\<close>.
\<close>

datatype xml_element =
  Element (elem_tag: string) (elem_attrib: "(string \<times> string) list")
          (elem_text: "string option") (elem_children: "xml_element list")

definition find_child :: "string \<Rightarrow> xml_element \<Rightarrow> xml_element option" where
  "find_child t e = List.find (\<lambda>c. elem_tag c = t) (elem_children e)"

definition attrib_get :: "xml_element \<Rightarrow> string \<Rightarrow> string \<Rightarrow> string" where
  "attrib_get e k dflt = (case map_of (elem_attrib e) k of None \<Rightarrow> dflt | Some v \<Rightarrow> v)"

definition text_value :: "xml_element \<Rightarrow> pyval" where
  "text_value e = (case elem_text e of None \<Rightarrow> PNone | Some t \<Rightarrow> PStr t)"

text \<open>
  The body of the loop over test cases, up to the dictionary handed to
  \<open>TestResult.from_dict\<close>. A \<open>time\<close> attribute that is not a number raises, which
  \<open>_load_from_xml\<close> turns into its \<open>ValueError\<close>.
\<close>

definition testcase_result_data :: "(string \<Rightarrow> real option) \<Rightarrow> xml_element \<Rightarrow> exn + pydict" where
  "testcase_result_data float_of_str testcase =
     (case (case map_of (elem_attrib testcase) ''time'' of
              None \<Rightarrow> Some 0
            | Some t \<Rightarrow> float_of_str t) of
        None \<Rightarrow> Inl ValueError
      | Some time \<Rightarrow>
          (let result_data =
                 [(''id'', PStr (attrib_get testcase ''name'' [])),
                  (''name'', PStr (attrib_get testcase ''name'' [])),
                  (''suite'', PStr (attrib_get testcase ''classname'' [])),
                  (''duration'', PFloat time),
                  (''status'', PStr ''PASSED'')];
               result_data =
                 (case find_child ''failure'' testcase of
                    Some failure_el \<Rightarrow>
                      dict_set (dict_set result_data ''status'' (PStr ''FAILED''))
                        ''error_details'' (text_value failure_el)
                  | None \<Rightarrow>
                      (case find_child ''error'' testcase of
                         Some error_el \<Rightarrow>
                           dict_set (dict_set result_data ''status'' (PStr ''ERROR''))
                             ''error_details'' (text_value error_el)
                       | None \<Rightarrow> result_data));
               result_data =
                 (case find_child ''skipped'' testcase of
                    Some skipped_el \<Rightarrow>
                      dict_set (dict_set result_data ''status'' (PStr ''SKIPPED''))
                        ''message'' (PStr (attrib_get skipped_el ''message'' []))
                  | None \<Rightarrow> result_data)
           in Inr result_data))"

text \<open>The \<open>status\<close> attribute of \<open>TestResult.from_dict(data)\<close>.\<close>

definition from_dict_status :: "pydict \<Rightarrow> pyval" where
  "from_dict_status data = dict_get data ''status'' (PStr ''UNKNOWN'')"

section \<open>Metrics and analytics on an empty record set (metrics.py, analytics.py)\<close>

text \<open>
  Each public function starts with a guard on its input and only then computes. The
  computation behind the guard is the parameter \<open>body\<close>: what is proved about the
  guard holds whatever the computation is.
\<close>

definition no_results :: pyval where
  "no_results = PDict [(''error'', PStr ''No test results available'')]"

definition calculate_execution_metrics :: "(pydict list \<Rightarrow> exn + pyval) \<Rightarrow> pydict list \<Rightarrow> exn + pyval" where
  "calculate_execution_metrics body test_results =
     (if test_results = [] then Inr no_results else body test_results)"

definition calculate_quality_metrics :: "(pydict list \<Rightarrow> exn + pyval) \<Rightarrow> pydict list \<Rightarrow> exn + pyval" where
  "calculate_quality_metrics body test_results =
     (if test_results = [] then Inr no_results else body test_results)"

definition calculate_performance_metrics :: "(pydict list \<Rightarrow> exn + pyval) \<Rightarrow> pydict list \<Rightarrow> exn + pyval" where
  "calculate_performance_metrics body test_results =
     (if test_results = [] then Inr no_results else body test_results)"

definition calculate_coverage_metrics :: "(pydict list \<Rightarrow> exn + pyval) \<Rightarrow> pydict list \<Rightarrow> exn + pyval" where
  "calculate_coverage_metrics body test_results =
     (if test_results = [] then Inr no_results else body test_results)"

definition calculate_trend_metrics :: "(pydict list \<Rightarrow> exn + pyval) \<Rightarrow> pydict list \<Rightarrow> exn + pyval" where
  "calculate_trend_metrics body test_results =
     (if test_results = [] then Inr no_results else body test_results)"

definition calculate_comparative_metrics :: "(pydict list \<Rightarrow> exn + pyval) \<Rightarrow> pydict list \<Rightarrow> exn + pyval" where
  "calculate_comparative_metrics body test_results =
     (if test_results = [] then Inr no_results else body test_results)"

definition calculate_kpi_summary :: "(pydict list \<Rightarrow> exn + pyval) \<Rightarrow> pydict list \<Rightarrow> exn + pyval" where
  "calculate_kpi_summary body test_results =
     (if test_results = [] then Inr no_results else body test_results)"

definition analyze_performance :: "(pydict list \<Rightarrow> exn + pyval) \<Rightarrow> pydict list \<Rightarrow> exn + pyval" where
  "analyze_performance body test_results =
     (if test_results = [] then Inr no_results else body test_results)"

definition analyze_test_quality :: "(pydict list \<Rightarrow> exn + pyval) \<Rightarrow> pydict list \<Rightarrow> exn + pyval" where
  "analyze_test_quality body test_results =
     (if test_results = [] then Inr no_results else body test_results)"

text \<open>
  \<open>analyze_failure_patterns\<close> has no guard on the input; it filters the failed tests
  and guards on those.
\<close>

definition analyze_failure_patterns ::
  "(pydict list \<Rightarrow> pydict list \<Rightarrow> exn + pyval) \<Rightarrow> pydict list \<Rightarrow> exn + pyval" where
  "analyze_failure_patterns body test_results =
     (let failed_tests =
            filter (\<lambda>result. map_of result ''status'' = Some (PStr ''FAILED'')) test_results
      in if failed_tests = [] then Inr (PDict [(''message'', PStr ''No failed tests to analyze'')])
         else body failed_tests test_results)"

definition analyze_trends ::
  "(string \<Rightarrow> pydict list \<Rightarrow> exn + pydict list) \<Rightarrow> (string \<Rightarrow> pydict list \<Rightarrow> exn + pyval) \<Rightarrow>
   string \<Rightarrow> pydict list \<Rightarrow> exn + pyval" where
  "analyze_trends filter_by_time_period body time_period test_results =
     (if test_results = [] then
        Inr (PDict [(''error'', PStr ''No test results available for trend analysis'')])
      else
        (case filter_by_time_period time_period test_results of
           Inl e \<Rightarrow> Inl e
         | Inr filtered_results \<Rightarrow>
             if filtered_results = [] then
               Inr (PDict [(''message'', PStr ''No results in specified time period'')])
             else body time_period filtered_results))"

section \<open>The notifier (notification_system.py)\<close>

datatype notification_priority = LOW | MEDIUM | HIGH | CRITICAL

datatype notification_channel = EMAIL | SLACK | TEAMS | WEBHOOK | CONSOLE | FILE

fun channel_value :: "notification_channel \<Rightarrow> string" where
  "channel_value EMAIL = ''email''"
| "channel_value SLACK = ''slack''"
| "channel_value TEAMS = ''teams''"
| "channel_value WEBHOOK = ''webhook''"
| "channel_value CONSOLE = ''console''"
| "channel_value FILE = ''file''"

text \<open>
  The thresholds of a rule's trigger conditions are numbers, as in every rule the
  repository builds (the default rules and those of config.py).
\<close>

datatype pynum = NInt int | NFloat real

fun num_value :: "pynum \<Rightarrow> real" where
  "num_value (NInt i) = real_of_int i"
| "num_value (NFloat x) = x"

record notification_rule =
  rule_name :: string
  rule_channel :: notification_channel
  priority_threshold :: notification_priority
  trigger_conditions :: "(string \<times> pynum) list"
  template :: string
  enabled :: bool
  rate_limit_minutes :: int

record notification_result =
  success :: bool
  channel :: string
  result_message :: "string option"
  result_timestamp :: datetime
  result_error_details :: "string option"

record notification_system =
  config :: pydict
  rules :: "notification_rule list"
  notification_history :: "notification_result list"
  last_notification_times :: "(string \<times> datetime) list"

subsection \<open>Arithmetic and comparison on Python values\<close>

text \<open>
  Booleans, integers and floats are numbers; \<open>+\<close>, \<open><\<close> and \<open>>\<close> between a number
  and anything else raise \<open>TypeError\<close>.
\<close>

fun as_int :: "pyval \<Rightarrow> int option" where
  "as_int (PBool b) = Some (if b then 1 else 0)"
| "as_int (PInt i) = Some i"
| "as_int v = None"

fun as_real :: "pyval \<Rightarrow> real option" where
  "as_real (PBool b) = Some (if b then 1 else 0)"
| "as_real (PInt i) = Some (real_of_int i)"
| "as_real (PFloat x) = Some x"
| "as_real v = None"

definition py_add :: "pyval \<Rightarrow> pyval \<Rightarrow> exn + pyval" where
  "py_add a b =
     (case (as_int a, as_int b) of
        (Some i, Some j) \<Rightarrow> Inr (PInt (i + j))
      | _ \<Rightarrow>
          (case (as_real a, as_real b) of
             (Some x, Some y) \<Rightarrow> Inr (PFloat (x + y))
           | _ \<Rightarrow> Inl TypeError))"

definition py_lt :: "pyval \<Rightarrow> pynum \<Rightarrow> exn + bool" where
  "py_lt a b = (case as_real a of None \<Rightarrow> Inl TypeError | Some x \<Rightarrow> Inr (x < num_value b))"

definition py_gt :: "pyval \<Rightarrow> pynum \<Rightarrow> exn + bool" where
  "py_gt a b = (case as_real a of None \<Rightarrow> Inl TypeError | Some x \<Rightarrow> Inr (x > num_value b))"

text \<open>\<open>a or b\<close>: \<open>b\<close> is evaluated only when \<open>a\<close> is false.\<close>

definition py_or :: "exn + bool \<Rightarrow> exn + bool \<Rightarrow> exn + bool" where
  "py_or a b = (case a of Inl e \<Rightarrow> Inl e | Inr True \<Rightarrow> Inr True | Inr False \<Rightarrow> b)"

subsection \<open>\<open>_calculate_summary\<close>\<close>

definition status_is :: "string \<Rightarrow> pydict \<Rightarrow> bool" where
  "status_is s r = (map_of r ''status'' = Some (PStr s))"

fun sum_durations :: "pyval \<Rightarrow> pydict list \<Rightarrow> exn + pyval" where
  "sum_durations acc [] = Inr acc"
| "sum_durations acc (r # rs) =
     (case py_add acc (dict_get r ''duration'' (PInt 0)) of
        Inl e \<Rightarrow> Inl e
      | Inr acc' \<Rightarrow> sum_durations acc' rs)"

fun slow_filter :: "pydict list \<Rightarrow> exn + pydict list" where
  "slow_filter [] = Inr []"
| "slow_filter (r # rs) =
     (case py_gt (dict_get r ''duration'' (PInt 0)) (NInt 20) of
        Inl e \<Rightarrow> Inl e
      | Inr slow \<Rightarrow>
          (case slow_filter rs of
             Inl e \<Rightarrow> Inl e
           | Inr ys \<Rightarrow> Inr (if slow then r # ys else ys)))"

text \<open>\<open>now_iso\<close> is the text of \<open>datetime.now().isoformat()\<close> at the call.\<close>

definition calculate_summary :: "string \<Rightarrow> pydict list \<Rightarrow> exn + pydict" where
  "calculate_summary now_iso test_results =
     (let n = int (length test_results);
          n_passed = int (length (filter (status_is ''PASSED'') test_results));
          n_failed = int (length (filter (status_is ''FAILED'') test_results));
          n_skipped = int (length (filter (status_is ''SKIPPED'') test_results))
      in case sum_durations (PInt 0) test_results of
           Inl e \<Rightarrow> Inl e
         | Inr duration_sum \<Rightarrow>
             (let rate = (if n > 0 then PFloat (real_of_int n_passed / real_of_int n * 100)
                          else PInt 0);
                  failed_tests = filter (status_is ''FAILED'') test_results
              in case slow_filter test_results of
                   Inl e \<Rightarrow> Inl e
                 | Inr slow_tests \<Rightarrow>
                     Inr [(''total'', PInt n),
                          (''passed'', PInt n_passed),
                          (''failed'', PInt n_failed),
                          (''skipped'', PInt n_skipped),
                          (''pass_rate'', rate),
                          (''total_duration'', duration_sum),
                          (''failure_rate'',
                             if n > 0 then PFloat (real_of_int n_failed / real_of_int n * 100)
                             else PInt 0),
                          (''failed_tests'', PList (map PDict failed_tests)),
                          (''slow_tests'', PList (map PDict slow_tests)),
                          (''timestamp'', PStr now_iso)]))"

subsection \<open>Rule evaluation\<close>

definition priority_exceeds_threshold :: "pydict \<Rightarrow> notification_priority \<Rightarrow> exn + bool" where
  "priority_exceeds_threshold summary threshold =
     (let failure_rate = dict_get summary ''failure_rate'' (PInt 0);
          rate = dict_get summary ''pass_rate'' (PInt 0)
      in case threshold of
           CRITICAL \<Rightarrow> py_or (py_gt failure_rate (NInt 30)) (py_lt rate (NInt 50))
         | HIGH \<Rightarrow> py_or (py_gt failure_rate (NInt 20)) (py_lt rate (NInt 70))
         | MEDIUM \<Rightarrow> py_or (py_gt failure_rate (NInt 10)) (py_lt rate (NInt 85))
         | LOW \<Rightarrow> py_or (py_gt failure_rate (NInt 5)) (py_lt rate (NInt 95)))"

text \<open>
  The loop over \<open>conditions.items()\<close>: the condition's own name is the key looked up
  in the summary, and a name the summary does not have is passed over.
\<close>

fun check_trigger_conditions :: "pydict \<Rightarrow> (string \<times> pynum) list \<Rightarrow> exn + bool" where
  "check_trigger_conditions summary [] = Inr True"
| "check_trigger_conditions summary ((condition, threshold) # conditions) =
     (case map_of summary condition of
        None \<Rightarrow> check_trigger_conditions summary conditions
      | Some PNone \<Rightarrow> check_trigger_conditions summary conditions
      | Some actual_value \<Rightarrow>
          if suffix ''_threshold'' condition then
            (case py_lt actual_value threshold of
               Inl e \<Rightarrow> Inl e
             | Inr True \<Rightarrow> Inr False
             | Inr False \<Rightarrow> check_trigger_conditions summary conditions)
          else if prefix ''min_'' condition then
            (case py_lt actual_value threshold of
               Inl e \<Rightarrow> Inl e
             | Inr True \<Rightarrow> Inr False
             | Inr False \<Rightarrow> check_trigger_conditions summary conditions)
          else if prefix ''max_'' condition then
            (case py_gt actual_value threshold of
               Inl e \<Rightarrow> Inl e
             | Inr True \<Rightarrow> Inr False
             | Inr False \<Rightarrow> check_trigger_conditions summary conditions)
          else check_trigger_conditions summary conditions)"

fun evaluate_rules :: "pydict \<Rightarrow> notification_rule list \<Rightarrow> exn + notification_rule list" where
  "evaluate_rules summary [] = Inr []"
| "evaluate_rules summary (rule # rest) =
     (if \<not> enabled rule then evaluate_rules summary rest
      else
        (case priority_exceeds_threshold summary (priority_threshold rule) of
           Inl e \<Rightarrow> Inl e
         | Inr False \<Rightarrow> evaluate_rules summary rest
         | Inr True \<Rightarrow>
             (case check_trigger_conditions summary (trigger_conditions rule) of
                Inl e \<Rightarrow> Inl e
              | Inr met \<Rightarrow>
                  (case evaluate_rules summary rest of
                     Inl e \<Rightarrow> Inl e
                   | Inr applicable \<Rightarrow> Inr (if met then rule # applicable else applicable)))))"

subsection \<open>Rate limiting and delivery\<close>

definition dt_minus :: "datetime \<Rightarrow> datetime \<Rightarrow> exn + int" where
  "dt_minus a b =
     (case (utcoffset a, utcoffset b) of
        (None, None) \<Rightarrow> Inr (wall a - wall b)
      | (Some oa, Some ob) \<Rightarrow> Inr ((wall a - oa) - (wall b - ob))
      | _ \<Rightarrow> Inl TypeError)"

definition timedelta_minutes :: "int \<Rightarrow> int" where
  "timedelta_minutes m = m * 60 * 1000000"

definition should_send_notification ::
  "datetime \<Rightarrow> notification_rule \<Rightarrow> notification_system \<Rightarrow> exn + bool" where
  "should_send_notification current_time rule self =
     (case map_of (last_notification_times self) (rule_name rule) of
        None \<Rightarrow> Inr True
      | Some last_sent \<Rightarrow>
          (case dt_minus current_time last_sent of
             Inl e \<Rightarrow> Inl e
           | Inr time_diff \<Rightarrow>
               Inr (\<not> time_diff < timedelta_minutes (rate_limit_minutes rule))))"

definition record_notification :: "datetime \<Rightarrow> string \<Rightarrow> notification_system \<Rightarrow> notification_system" where
  "record_notification now rname self =
     self\<lparr>last_notification_times := dict_set (last_notification_times self) rname now\<rparr>"

text \<open>
  What lies outside the program: the clock's text form, the message templates and the
  transports (SMTP, HTTP, console, file). \<open>generate_message\<close> gives the message or the
  text of the exception raised while rendering; \<open>transport\<close> gives the pair
  \<open>(success, error)\<close> that every \<open>_send_...\<close> method returns.
\<close>

record env =
  isoformat :: "datetime \<Rightarrow> string"
  generate_message :: "string \<Rightarrow> pydict \<Rightarrow> pydict list \<Rightarrow> string + string"
  transport :: "notification_channel \<Rightarrow> pydict \<Rightarrow> string \<Rightarrow> string \<Rightarrow> bool \<times> string option"

text \<open>
  \<open>_send_notification\<close> returns its result object; the model also returns the list of
  messages it handed to a transport (none when rendering raised).
\<close>

definition send_notification ::
  "env \<Rightarrow> datetime \<Rightarrow> notification_rule \<Rightarrow> pydict \<Rightarrow> pydict list \<Rightarrow> notification_system \<Rightarrow>
   notification_result \<times> (notification_channel \<times> string) list" where
  "send_notification world now rule summary test_results self =
     (case generate_message world (template rule) summary test_results of
        Inl err \<Rightarrow>
          (\<lparr>success = False, channel = channel_value (rule_channel rule),
            result_message = Some err, result_timestamp = now,
            result_error_details = Some err\<rparr>, [])
      | Inr msg \<Rightarrow>
          (let (ok, error) = transport world (rule_channel rule) (config self) msg (rule_name rule)
           in (\<lparr>success = ok, channel = channel_value (rule_channel rule),
                result_message = (if ok then Some ''Notification sent successfully'' else error),
                result_timestamp = now,
                result_error_details = (if \<not> ok then error else None)\<rparr>,
               [(rule_channel rule, msg)])))"

fun send_loop ::
  "env \<Rightarrow> datetime \<Rightarrow> pydict \<Rightarrow> pydict list \<Rightarrow> notification_rule list \<Rightarrow> notification_system \<Rightarrow>
   (exn + notification_result list) \<times> notification_system \<times> (notification_channel \<times> string) list" where
  "send_loop world now summary test_results [] self = (Inr [], self, [])"
| "send_loop world now summary test_results (rule # rest) self =
     (case should_send_notification now rule self of
        Inl e \<Rightarrow> (Inl e, self, [])
      | Inr False \<Rightarrow> send_loop world now summary test_results rest self
      | Inr True \<Rightarrow>
          (let (result, tried) = send_notification world now rule summary test_results self;
               self' = (if success result then record_notification now (rule_name rule) self
                        else self);
               (ret, self'', more) = send_loop world now summary test_results rest self'
           in ((case ret of Inl e \<Rightarrow> Inl e | Inr rs \<Rightarrow> Inr (result # rs)), self'', tried @ more)))"

text \<open>
  The outcome of \<open>send_test_results_notification\<close>: what it returns or raises, the
  notifier afterwards, the rules handed to \<open>_evaluate_rules\<close> and the messages handed
  to a transport. The argument \<open>custom_rules\<close> is read into a local variable that
  nothing uses. Every clock read of one call is the argument \<open>now\<close>.
\<close>

record outcome =
  returned :: "exn + notification_result list"
  system_after :: notification_system
  rules_evaluated :: "notification_rule list"
  attempted :: "(notification_channel \<times> string) list"

definition send_test_results_notification ::
  "env \<Rightarrow> datetime \<Rightarrow> notification_system \<Rightarrow> pydict list \<Rightarrow> notification_rule list option \<Rightarrow> outcome" where
  "send_test_results_notification world now self test_results custom_rules =
     (if test_results = [] then
        \<lparr>returned = Inr [], system_after = self, rules_evaluated = [], attempted = []\<rparr>
      else
        (case calculate_summary (isoformat world now) test_results of
           Inl e \<Rightarrow>
             \<lparr>returned = Inl e, system_after = self, rules_evaluated = [], attempted = []\<rparr>
         | Inr summary \<Rightarrow>
             (case evaluate_rules summary (rules self) of
                Inl e \<Rightarrow>
                  \<lparr>returned = Inl e, system_after = self, rules_evaluated = rules self,
                   attempted = []\<rparr>
              | Inr applicable_rules \<Rightarrow>
                  (let (ret, self', tried) =
                         send_loop world now summary test_results applicable_rules self
                   in \<lparr>returned = ret, system_after = self', rules_evaluated = rules self,
                       attempted = tried\<rparr>))))"

section \<open>Constructors\<close>

text \<open>
  \<open>TestResult()\<close> without keyword arguments (\<open>now_iso\<close> is the text of the clock at
  construction), \<open>TestAggregator()\<close>, and \<open>NotificationSystem(config)\<close> with the three
  rules of \<open>_load_default_config\<close>.
\<close>

definition default_test_result :: "string \<Rightarrow> test_result" where
  "default_test_result now_iso =
     \<lparr>test_id = [], name = [], suite = [], category = [], status = ''UNKNOWN'',
      duration = 0, timestamp = now_iso, message = [], error_details = [], tags = [],
      priority = ''medium'', browser = [], os = [], test_type = ''functional'',
      retry_count = 0, custom_fields = []\<rparr>"

definition new_aggregator :: aggregator where
  "new_aggregator = \<lparr>results = [], source_files = [], aggregation_metadata = []\<rparr>"

definition default_rules :: "notification_rule list" where
  "default_rules =
     [\<lparr>rule_name = ''Critical Failures'', rule_channel = EMAIL, priority_threshold = HIGH,
       trigger_conditions = [(''failure_rate_threshold'', NFloat (1 / 10)), (''min_failures'', NInt 1)],
       template = ''failure_alert'', enabled = True, rate_limit_minutes = 60\<rparr>,
      \<lparr>rule_name = ''Success Notification'', rule_channel = CONSOLE, priority_threshold = LOW,
       trigger_conditions = [(''pass_rate_threshold'', NFloat 100)],
       template = ''success_notification'', enabled = True, rate_limit_minutes = 60\<rparr>,
      \<lparr>rule_name = ''Performance Issues'', rule_channel = CONSOLE, priority_threshold = MEDIUM,
       trigger_conditions = [(''slow_test_threshold'', NFloat 30), (''min_slow_tests'', NInt 1)],
       template = ''performance_alert'', enabled = True, rate_limit_minutes = 60\<rparr>]"

definition new_notification_system :: "pydict \<Rightarrow> notification_system" where
  "new_notification_system cfg =
     \<lparr>config = cfg, rules = default_rules, notification_history = [],
      last_notification_times = []\<rparr>"

text \<open>\<open>add_results\<close> with a list of \<open>TestResult\<close> objects, and \<open>add_rule\<close>.\<close>

definition add_results :: "test_result list \<Rightarrow> aggregator \<Rightarrow> aggregator" where
  "add_results rs self = self\<lparr>results := results self @ rs\<rparr>"

definition add_rule :: "notification_rule \<Rightarrow> notification_system \<Rightarrow> notification_system" where
  "add_rule rule self = self\<lparr>rules := rules self @ [rule]\<rparr>"

section \<open>Example inputs\<close>

text \<open>
  Concrete inputs for the examples that follow the theorems. \<open>example_fromisoformat\<close>
  and \<open>example_strftime\<close> are the library functions on the one timestamp the examples
  parse, 2024-05-01T10:00:00 (a Wednesday, 739006 days after 0001-01-01), and on the
  Monday of its week, 2024-04-29; the other timestamp texts of the examples are not
  ISO 8601.
\<close>

definition example_fromisoformat :: "string \<Rightarrow> datetime option" where
  "example_fromisoformat s =
     (if s = ''2024-05-01T10:00:00'' then Some \<lparr>wall = 63850154400000000, utcoffset = None\<rparr>
      else None)"

definition example_strftime :: "datetime \<Rightarrow> string \<Rightarrow> string" where
  "example_strftime t fmt =
     (if wall t = 63850154400000000 \<and> fmt = ''%Y-%m-%d %H:00'' then ''2024-05-01 10:00''
      else if wall t = 63850154400000000 \<and> fmt = ''%Y-%m-%d'' then ''2024-05-01''
      else if wall t = 63849981600000000 \<and> fmt = ''%Y-%m-%d'' then ''2024-04-29''
      else [])"

text \<open>Noon of 2024-05-01 and noon of 2024-05-03.\<close>

definition noon_may_1 :: datetime where
  "noon_may_1 = \<lparr>wall = 63850161600000000, utcoffset = None\<rparr>"

definition noon_may_3 :: datetime where
  "noon_may_3 = \<lparr>wall = 63850334400000000, utcoffset = None\<rparr>"

definition example_aggregator :: aggregator where
  "example_aggregator =
     add_results [(default_test_result ''2024-05-01T10:00:00'')\<lparr>name := ''login'', status := ''PASSED''\<rparr>]
       new_aggregator"

text \<open>
  A world for the notifier: the clock text of noon of May 1, templates rendered to a
  text naming the template, a console that accepts every message and, as with an empty
  configuration, every other transport reporting that it is not configured.
\<close>

definition example_world :: env where
  "example_world =
     \<lparr>isoformat = (\<lambda>t. ''2024-05-01T12:00:00''),
      generate_message = (\<lambda>template_name summary test_results. Inr (''rendered '' @ template_name)),
      transport = (\<lambda>ch cfg msg rname.
        if ch = CONSOLE then (True, None) else (False, Some ''not configured''))\<rparr>"

definition many_failures_rule :: notification_rule where
  "many_failures_rule =
     \<lparr>rule_name = ''Many failures'', rule_channel = CONSOLE, priority_threshold = LOW,
      trigger_conditions = [(''min_failures'', NInt 3)], template = ''failure_alert'',
      enabled = True, rate_limit_minutes = 60\<rparr>"

definition two_failed :: "pydict list" where
  "two_failed =
     [[(''name'', PStr ''a''), (''status'', PStr ''FAILED'')],
      [(''name'', PStr ''b''), (''status'', PStr ''FAILED'')]]"

text \<open>
  The texts e-acute (UTF-8 bytes 195, 169) and capital E-acute (bytes 195, 137), and
  \<open>str.upper()\<close> on ASCII text and on these two texts: it maps both to capital E-acute.
\<close>

definition e_acute :: string where
  "e_acute = [char_of (195 :: nat), char_of (169 :: nat)]"

definition capital_e_acute :: string where
  "capital_e_acute = [char_of (195 :: nat), char_of (137 :: nat)]"

definition example_upper :: "string \<Rightarrow> string" where
  "example_upper s =
     (if s = e_acute \<or> s = capital_e_acute then capital_e_acute else ascii_upper s)"

definition accent_aggregator :: aggregator where
  "accent_aggregator =
     add_results [(default_test_result ''2024-05-01T10:00:00'')\<lparr>name := ''menu'', status := e_acute\<rparr>]
       new_aggregator"

text \<open>A stand-in for the analysis behind the guard of \<open>analyze_failure_patterns\<close>.\<close>

definition example_analysis :: "pydict list \<Rightarrow> pydict list \<Rightarrow> exn + pyval" where
  "example_analysis failed_tests test_results =
     Inr (PDict [(''total_failures'', PInt (int (length failed_tests)))])"

section \<open>Counting lemmas\<close>

lemma map_of_counter_add:
  "map_of (counter_add k c) k' =
     (if k' = k then Some (case map_of c k of None \<Rightarrow> 1 | Some n \<Rightarrow> Suc n) else map_of c k')"
  by (induction c) auto

lemma counter_get_counter_add:
  "counter_get (counter_add k c) k' = counter_get c k' + (if k' = k then 1 else 0)"
  by (simp add: counter_get_def map_of_counter_add split: option.splits)

lemma counter_get_fold:
  "counter_get (fold counter_add xs c) k = counter_get c k + length (filter (\<lambda>x. x = k) xs)"
  by (induction xs arbitrary: c) (auto simp: counter_get_counter_add)

lemma counter_get_Counter:
  "counter_get (Counter xs) k = length (filter (\<lambda>x. x = k) xs)"
  using counter_get_fold [of xs "[]" k] by (simp add: Counter_def counter_get_def)

lemma four_way_split:
  "length (filter (\<lambda>x. x = ''PASSED'') xs) + length (filter (\<lambda>x. x = ''FAILED'') xs)
   + length (filter (\<lambda>x. x = ''SKIPPED'') xs) + length (filter (\<lambda>x. x = ''ERROR'') xs)
   + length (filter (\<lambda>x. x \<notin> {''PASSED'', ''FAILED'', ''SKIPPED'', ''ERROR''}) xs) = length xs"
  by (induction xs) auto

lemma get_summary_counts:
  "total_tests (get_summary f now self) = length (results self)"
  "passed (get_summary f now self) = length (filter (\<lambda>x. x = ''PASSED'') (map status (results self)))"
  "failed (get_summary f now self) = length (filter (\<lambda>x. x = ''FAILED'') (map status (results self)))"
  "skipped (get_summary f now self) = length (filter (\<lambda>x. x = ''SKIPPED'') (map status (results self)))"
  "errors (get_summary f now self) = length (filter (\<lambda>x. x = ''ERROR'') (map status (results self)))"
  by (simp_all add: get_summary_def Let_def counter_get_Counter)

lemma get_summary_pass_rate:
  "pass_rate (get_summary f now self) =
     (if results self = [] then 0
      else real (passed (get_summary f now self)) / real (total_tests (get_summary f now self)) * 100)"
  by (simp add: get_summary_def Let_def)

lemma status_buckets:
  fixes self :: aggregator and s :: summary
  assumes s: "s = get_summary fromisoformat now self"
  shows "passed s + failed s + skipped s + errors s
           + length (filter (\<lambda>r. status r \<notin> {''PASSED'', ''FAILED'', ''SKIPPED'', ''ERROR''}) (results self))
         = total_tests s"
proof -
  have "length (filter (\<lambda>x. x \<notin> {''PASSED'', ''FAILED'', ''SKIPPED'', ''ERROR''}) (map status (results self)))
      = length (filter (\<lambda>r. status r \<notin> {''PASSED'', ''FAILED'', ''SKIPPED'', ''ERROR''}) (results self))"
    by (simp add: filter_map comp_def)
  then show ?thesis
    unfolding s get_summary_counts using four_way_split [of "map status (results self)"] by simp
qed

section \<open>The summary: counts, pass rate, repeated calls\<close>

text \<open>
  Claim C3. For every list of aggregated records the summary satisfies
  passed + failed + skipped + errors \<le> total, with equality exactly when every
  record's status is one of PASSED, FAILED, SKIPPED, ERROR; total is the number of
  records, and a record with any other status is counted in total and in none of the
  four buckets: total is the sum of the four buckets and the number of such records.
\<close>

theorem summary_buckets_within_total:
  "(let s = get_summary fromisoformat now self;
        other = filter (\<lambda>r. status r \<notin> {''PASSED'', ''FAILED'', ''SKIPPED'', ''ERROR''}) (results self)
    in passed s + failed s + skipped s + errors s \<le> total_tests s
     \<and> (passed s + failed s + skipped s + errors s = total_tests s) =
       (\<forall>r \<in> set (results self). status r \<in> {''PASSED'', ''FAILED'', ''SKIPPED'', ''ERROR''})
     \<and> total_tests s = length (results self)
     \<and> total_tests s = passed s + failed s + skipped s + errors s + length other)"
proof -
  define s where "s = get_summary fromisoformat now self"
  define other where
    "other = filter (\<lambda>r. status r \<notin> {''PASSED'', ''FAILED'', ''SKIPPED'', ''ERROR''}) (results self)"
  have split: "passed s + failed s + skipped s + errors s + length other = total_tests s"
    unfolding other_def using status_buckets [OF s_def] .
  have none: "(length other = 0) =
      (\<forall>r \<in> set (results self). status r \<in> {''PASSED'', ''FAILED'', ''SKIPPED'', ''ERROR''})"
    unfolding other_def by (simp add: filter_empty_conv)
  have le: "passed s + failed s + skipped s + errors s \<le> total_tests s"
    using split by linarith
  have eq: "(passed s + failed s + skipped s + errors s = total_tests s) = (length other = 0)"
    using split by linarith
  have len: "total_tests s = length (results self)"
    unfolding s_def by (rule get_summary_counts)
  show ?thesis
    unfolding Let_def s_def [symmetric] other_def [symmetric]
    using le eq none len split by simp
qed

text \<open>
  An aggregator with a passed, a failed and an UNKNOWN record: total is 3, the four
  buckets hold 2.
\<close>

theorem summary_buckets_within_total_witness:
  "(let self = add_results
        [(default_test_result ''2024-05-01T10:00:00'')\<lparr>status := ''PASSED''\<rparr>,
         (default_test_result ''2024-05-01T10:00:00'')\<lparr>status := ''FAILED''\<rparr>,
         default_test_result ''2024-05-01T10:00:00''] new_aggregator;
        s = get_summary example_fromisoformat noon_may_1 self
    in total_tests s = 3 \<and> passed s = 1 \<and> failed s = 1 \<and> skipped s = 0 \<and> errors s = 0
     \<and> passed s + failed s + skipped s + errors s < total_tests s
     \<and> \<not> (\<forall>r \<in> set (results self). status r \<in> {''PASSED'', ''FAILED'', ''SKIPPED'', ''ERROR''}))"
  using summary_buckets_within_total [of example_fromisoformat noon_may_1
      "add_results
        [(default_test_result ''2024-05-01T10:00:00'')\<lparr>status := ''PASSED''\<rparr>,
         (default_test_result ''2024-05-01T10:00:00'')\<lparr>status := ''FAILED''\<rparr>,
         default_test_result ''2024-05-01T10:00:00''] new_aggregator"]
  by (simp add: Let_def add_results_def new_aggregator_def default_test_result_def
      get_summary_counts)

text \<open>
  Claim C4. For every list of aggregated records the summary's pass rate lies between
  0 and 100, equals passed / total * 100 when total is positive and equals 0 when total
  is 0. (The floats of the source are read as the real numbers they stand for.)
\<close>

theorem summary_pass_rate_range:
  "(let s = get_summary fromisoformat now self
    in 0 \<le> pass_rate s \<and> pass_rate s \<le> 100
     \<and> (if total_tests s > 0 then pass_rate s = real (passed s) / real (total_tests s) * 100
        else pass_rate s = 0))"
proof -
  define s where "s = get_summary fromisoformat now self"
  have le: "passed s \<le> total_tests s"
    unfolding s_def get_summary_counts
    using length_filter_le [of "\<lambda>x. x = ''PASSED''" "map status (results self)"] by simp
  have tot: "(total_tests s > 0) = (results self \<noteq> [])"
    unfolding s_def get_summary_counts by simp
  have rate: "pass_rate s = (if total_tests s > 0 then real (passed s) / real (total_tests s) * 100 else 0)"
    unfolding tot unfolding s_def by (simp add: get_summary_pass_rate)
  have "0 \<le> real (passed s) / real (total_tests s) * 100" by simp
  moreover have "real (passed s) / real (total_tests s) * 100 \<le> 100" if "total_tests s > 0"
  proof -
    have "real (passed s) / real (total_tests s) \<le> 1" using le that by simp
    from mult_right_mono [OF this, of 100] show ?thesis by simp
  qed
  ultimately show ?thesis
    unfolding Let_def s_def [symmetric] using rate by simp
qed

text \<open>Two passed records out of four: the pass rate is 50.\<close>

theorem summary_pass_rate_range_witness:
  "(let self = add_results
        [(default_test_result ''2024-05-01T10:00:00'')\<lparr>status := ''PASSED''\<rparr>,
         (default_test_result ''2024-05-01T10:00:00'')\<lparr>status := ''FAILED''\<rparr>,
         (default_test_result ''2024-05-01T10:00:00'')\<lparr>status := ''PASSED''\<rparr>,
         (default_test_result ''2024-05-01T10:00:00'')\<lparr>status := ''SKIPPED''\<rparr>] new_aggregator;
        s = get_summary example_fromisoformat noon_may_1 self
    in total_tests s = 4 \<and> passed s = 2 \<and> pass_rate s = 50)"
  using summary_pass_rate_range [of example_fromisoformat noon_may_1
      "add_results
        [(default_test_result ''2024-05-01T10:00:00'')\<lparr>status := ''PASSED''\<rparr>,
         (default_test_result ''2024-05-01T10:00:00'')\<lparr>status := ''FAILED''\<rparr>,
         (default_test_result ''2024-05-01T10:00:00'')\<lparr>status := ''PASSED''\<rparr>,
         (default_test_result ''2024-05-01T10:00:00'')\<lparr>status := ''SKIPPED''\<rparr>] new_aggregator"]
  by (simp add: Let_def add_results_def new_aggregator_def default_test_result_def
      get_summary_counts)

text \<open>
  Claim C5, as stated: calling \<open>get_summary\<close> twice with no \<open>add_results\<close> or
  \<open>clear_results\<close> in between gives two summaries equal in every field. This fails: the
  summary of a non-empty aggregator carries \<open>last_updated\<close>, the clock reading of the
  call, and \<open>recent_trends\<close>, computed against that reading. Two calls on the same
  aggregator, at noon and one microsecond later:
\<close>

theorem summary_twice_counterexample:
  "get_summary example_fromisoformat \<lparr>wall = 63850161600000000, utcoffset = None\<rparr> example_aggregator
   \<noteq> get_summary example_fromisoformat \<lparr>wall = 63850161600000001, utcoffset = None\<rparr> example_aggregator"
  by (simp add: get_summary_def Let_def example_aggregator_def add_results_def new_aggregator_def)

text \<open>
  Claim C5, amended. For every aggregator state, two calls of \<open>get_summary\<close> with no
  \<open>add_results\<close> or \<open>clear_results\<close> in between return summaries that agree on every
  field other than \<open>recent_trends\<close> and \<open>last_updated\<close>; \<open>last_updated\<close> is the clock
  reading of each call and \<open>recent_trends\<close> is computed from the results recent at that
  reading. For an empty aggregator the two summaries are equal in every field.
\<close>

theorem summary_twice_same_up_to_clock:
  "(let s1 = get_summary fromisoformat now1 self;
        s2 = get_summary fromisoformat now2 self
    in total_tests s1 = total_tests s2 \<and> passed s1 = passed s2 \<and> failed s1 = failed s2
     \<and> skipped s1 = skipped s2 \<and> errors s1 = errors s2 \<and> pass_rate s1 = pass_rate s2
     \<and> total_duration s1 = total_duration s2 \<and> avg_duration s1 = avg_duration s2
     \<and> map_option suite_breakdown (details s1) = map_option suite_breakdown (details s2)
     \<and> map_option category_breakdown (details s1) = map_option category_breakdown (details s2)
     \<and> map_option status_breakdown (details s1) = map_option status_breakdown (details s2)
     \<and> map_option summary_source_files (details s1) = map_option summary_source_files (details s2)
     \<and> map_option last_updated (details s1) = (if results self = [] then None else Some now1)
     \<and> map_option last_updated (details s2) = (if results self = [] then None else Some now2)
     \<and> map_option recent_trends (details s1) =
         (if results self = [] then None
          else Some (calculate_trends (get_recent_results fromisoformat now1 24 (results self))))
     \<and> map_option recent_trends (details s2) =
         (if results self = [] then None
          else Some (calculate_trends (get_recent_results fromisoformat now2 24 (results self))))
     \<and> (results self = [] \<longrightarrow> s1 = s2))"
  by (simp add: get_summary_def Let_def)

text \<open>
  The empty aggregator at noon of May 1 and of May 3: the same summary. The aggregator
  with one passed record of 10:00 on May 1: the same counts at both readings, and the
  record is recent at the first reading only.
\<close>

theorem summary_twice_same_up_to_clock_witness:
  "get_summary example_fromisoformat noon_may_1 new_aggregator
     = get_summary example_fromisoformat noon_may_3 new_aggregator
   \<and> passed (get_summary example_fromisoformat noon_may_1 example_aggregator) = 1
   \<and> passed (get_summary example_fromisoformat noon_may_3 example_aggregator) = 1
   \<and> map_option recent_trends (details (get_summary example_fromisoformat noon_may_1 example_aggregator))
       = Some (Recent 1 100 [(''PASSED'', 1)])
   \<and> map_option recent_trends (details (get_summary example_fromisoformat noon_may_3 example_aggregator))
       = Some No_data"
proof -
  note on_empty =
    summary_twice_same_up_to_clock [of example_fromisoformat noon_may_1 new_aggregator noon_may_3]
  note on_one =
    summary_twice_same_up_to_clock [of example_fromisoformat noon_may_1 example_aggregator noon_may_3]
  have empty: "results new_aggregator = []" by (simp add: new_aggregator_def)
  have one: "results example_aggregator \<noteq> []"
    by (simp add: example_aggregator_def add_results_def new_aggregator_def)
  have r1: "get_recent_results example_fromisoformat noon_may_1 24 (results example_aggregator)
              = results example_aggregator"
    by (simp add: example_aggregator_def add_results_def new_aggregator_def get_recent_results_def
        recent_keep_def example_fromisoformat_def default_test_result_def replace_Z_def dt_ge_def
        dt_sub_def timedelta_hours_def noon_may_1_def)
  have r3: "get_recent_results example_fromisoformat noon_may_3 24 (results example_aggregator) = []"
    by (simp add: example_aggregator_def add_results_def new_aggregator_def get_recent_results_def
        recent_keep_def example_fromisoformat_def default_test_result_def replace_Z_def dt_ge_def
        dt_sub_def timedelta_hours_def noon_may_3_def)
  have t1: "calculate_trends (results example_aggregator) = Recent 1 100 [(''PASSED'', 1)]"
    by (simp add: example_aggregator_def add_results_def new_aggregator_def calculate_trends_def
        default_test_result_def Counter_def counter_get_def)
  have t3: "calculate_trends [] = No_data" by (simp add: calculate_trends_def)
  have p1: "passed (get_summary example_fromisoformat noon_may_1 example_aggregator) = 1"
    by (simp add: get_summary_counts example_aggregator_def add_results_def new_aggregator_def
        default_test_result_def)
  have same: "get_summary example_fromisoformat noon_may_1 new_aggregator
     = get_summary example_fromisoformat noon_may_3 new_aggregator"
    using on_empty empty by (simp add: Let_def)
  have p3: "passed (get_summary example_fromisoformat noon_may_3 example_aggregator) = 1"
    using on_one p1 by (simp add: Let_def)
  have q1: "map_option recent_trends (details (get_summary example_fromisoformat noon_may_1 example_aggregator))
       = Some (Recent 1 100 [(''PASSED'', 1)])"
    using on_one one by (simp add: Let_def r1 t1)
  have q3: "map_option recent_trends (details (get_summary example_fromisoformat noon_may_3 example_aggregator))
       = Some No_data"
    using on_one one by (simp add: Let_def r3 t3)
  show ?thesis using same p1 p3 q1 q3 by blast
qed

section \<open>Unparsable timestamps in the two time-based views\<close>

lemma period_step_unparsable:
  "fromisoformat (replace_Z (timestamp r)) = None \<Longrightarrow>
     period_step fromisoformat strftime period r period_data = period_data"
  by (simp add: period_step_def)

lemma fold_period_step_skip:
  assumes "fromisoformat (replace_Z (timestamp r)) = None"
  shows "fold (period_step fromisoformat strftime period) (xs @ r # ys) d
       = fold (period_step fromisoformat strftime period) (xs @ ys) d"
  using assms by (simp add: period_step_unparsable)

lemma group_by_period_skip:
  "fromisoformat (replace_Z (timestamp r)) = None \<Longrightarrow>
     group_by_period fromisoformat strftime period (xs @ r # ys)
   = group_by_period fromisoformat strftime period (xs @ ys)"
  unfolding group_by_period_def by (rule fold_period_step_skip)

lemma trends_list_skip:
  "fromisoformat (replace_Z (timestamp r)) = None \<Longrightarrow>
     trends_list fromisoformat strftime period (xs @ r # ys)
   = trends_list fromisoformat strftime period (xs @ ys)"
  by (simp add: trends_list_def group_by_period_skip)

lemma recent_keep_unparsable:
  "fromisoformat (replace_Z (timestamp r)) = None \<Longrightarrow> recent_keep fromisoformat cutoff r"
  by (simp add: recent_keep_def)

lemma get_recent_results_split:
  "fromisoformat (replace_Z (timestamp r)) = None \<Longrightarrow>
     get_recent_results fromisoformat now hours (xs @ r # ys)
   = get_recent_results fromisoformat now hours xs @ r # get_recent_results fromisoformat now hours ys"
  by (simp add: get_recent_results_def Let_def recent_keep_unparsable)

lemma get_recent_results_append:
  "get_recent_results fromisoformat now hours (xs @ ys)
   = get_recent_results fromisoformat now hours xs @ get_recent_results fromisoformat now hours ys"
  by (simp add: get_recent_results_def Let_def)

lemma calculate_trends_nonempty:
  "rs \<noteq> [] \<Longrightarrow>
     calculate_trends rs =
       Recent (length rs)
         (real (length (filter (\<lambda>x. status x = ''PASSED'') rs)) / real (length rs) * 100)
         (Counter (map status rs))"
  by (simp add: calculate_trends_def Let_def counter_get_Counter filter_map comp_def)

text \<open>
  Claim C7. For every record whose timestamp fails to parse, wherever it stands among
  the aggregator's results (\<open>xs\<close> before it, \<open>ys\<close> after it): the record is among the
  recent results of the last 24 hours, at its place between the recent ones of \<open>xs\<close> and
  of \<open>ys\<close>, and the summary's \<open>recent_trends\<close> counts it: \<open>total_recent\<close> is one more
  than the number of recent records among the others, the status breakdown counts one
  more for the record's status and the same for every other status, and the recent pass
  rate is taken over the recent records with this one. For every period (hourly, daily,
  weekly or any other text) the period buckets and the trends of \<open>get_trends_over_time\<close>
  are those computed from the other records \<open>xs @ ys\<close> alone. The two views treat the
  record in opposite ways.
\<close>

theorem unparsable_timestamp_recent_not_trend:
  assumes "fromisoformat (replace_Z (timestamp r)) = None"
      and "results self = xs @ r # ys"
  shows "r \<in> set (get_recent_results fromisoformat now 24 (results self))
       \<and> get_recent_results fromisoformat now 24 (results self)
           = get_recent_results fromisoformat now 24 xs @ r # get_recent_results fromisoformat now 24 ys
       \<and> (case map_option recent_trends (details (get_summary fromisoformat now self)) of
            Some (Recent n rate breakdown) \<Rightarrow>
              n = Suc (length (get_recent_results fromisoformat now 24 (xs @ ys)))
            \<and> (\<forall>k. counter_get breakdown k =
                  length (filter (\<lambda>x. status x = k) (get_recent_results fromisoformat now 24 (xs @ ys)))
                  + (if status r = k then 1 else 0))
            \<and> rate =
                real (length (filter (\<lambda>x. status x = ''PASSED'')
                                (get_recent_results fromisoformat now 24 (xs @ ys)))
                      + (if status r = ''PASSED'' then 1 else 0))
                / real n * 100
          | _ \<Rightarrow> False)
       \<and> (\<forall>period. group_by_period fromisoformat strftime period (results self)
                   = group_by_period fromisoformat strftime period (xs @ ys))
       \<and> (\<forall>period. map_option trends (get_trends_over_time fromisoformat strftime period self)
                   = Some (trends_list fromisoformat strftime period (xs @ ys)))"
proof -
  let ?recent = "get_recent_results fromisoformat now 24 (results self)"
  let ?others = "get_recent_results fromisoformat now 24 (xs @ ys)"
  have split: "?recent = get_recent_results fromisoformat now 24 xs @ r
                 # get_recent_results fromisoformat now 24 ys"
    using assms by (simp add: get_recent_results_split)
  have recent: "r \<in> set ?recent"
    unfolding split by simp
  have others: "?others = get_recent_results fromisoformat now 24 xs
                 @ get_recent_results fromisoformat now 24 ys"
    by (rule get_recent_results_append)
  have len: "length ?recent = Suc (length ?others)"
    unfolding split others by simp
  have count: "length (filter (\<lambda>x. status x = k) ?recent)
             = length (filter (\<lambda>x. status x = k) ?others) + (if status r = k then 1 else 0)" for k
    unfolding split others by simp
  have nonempty: "?recent \<noteq> []"
    unfolding split by simp
  have summ: "map_option recent_trends (details (get_summary fromisoformat now self))
           = Some (Recent (length ?recent)
                     (real (length (filter (\<lambda>x. status x = ''PASSED'') ?recent))
                        / real (length ?recent) * 100)
                     (Counter (map status ?recent)))"
    using assms(2) calculate_trends_nonempty [OF nonempty] by (simp add: get_summary_def Let_def)
  have breakdown: "counter_get (Counter (map status ?recent)) k
             = length (filter (\<lambda>x. status x = k) ?others) + (if status r = k then 1 else 0)" for k
    using count [of k] by (simp add: counter_get_Counter filter_map comp_def)
  have sub: "(case map_option recent_trends (details (get_summary fromisoformat now self)) of
            Some (Recent n rate breakdown) \<Rightarrow>
              n = Suc (length ?others)
            \<and> (\<forall>k. counter_get breakdown k =
                  length (filter (\<lambda>x. status x = k) ?others) + (if status r = k then 1 else 0))
            \<and> rate =
                real (length (filter (\<lambda>x. status x = ''PASSED'') ?others)
                      + (if status r = ''PASSED'' then 1 else 0))
                / real n * 100
          | _ \<Rightarrow> False)"
    unfolding summ using len breakdown count [of "''PASSED''"] by simp
  have buckets: "group_by_period fromisoformat strftime period (results self)
               = group_by_period fromisoformat strftime period (xs @ ys)" for period
    using assms by (simp add: group_by_period_skip)
  have trend: "map_option trends (get_trends_over_time fromisoformat strftime period self)
             = Some (trends_list fromisoformat strftime period (xs @ ys))" for period
    using assms by (simp add: get_trends_over_time_def Let_def trends_list_skip)
  show ?thesis using recent split sub buckets trend by blast
qed

text \<open>
  A passed record of 10:00 on May 1 and a failed record whose timestamp is the text
  \<open>yesterday\<close>, looked at on May 3: only the second is recent and the summary's
  \<open>recent_trends\<close> counts it alone; only the first is in a bucket.
\<close>

theorem unparsable_timestamp_recent_not_trend_witness:
  "(let good = (default_test_result ''2024-05-01T10:00:00'')\<lparr>status := ''PASSED''\<rparr>;
        bad = (default_test_result ''yesterday'')\<lparr>status := ''FAILED''\<rparr>;
        self = add_results [good, bad] new_aggregator
    in example_fromisoformat (replace_Z (timestamp bad)) = None
     \<and> get_recent_results example_fromisoformat noon_may_3 24 (results self) = [bad]
     \<and> map_option recent_trends (details (get_summary example_fromisoformat noon_may_3 self))
         = Some (Recent 1 0 [(''FAILED'', 1)])
     \<and> map_option (map trend_period o trends)
         (get_trends_over_time example_fromisoformat example_strftime ''daily'' self) = Some [''2024-05-01'']
     \<and> map_option (map trend_total o trends)
         (get_trends_over_time example_fromisoformat example_strftime ''daily'' self) = Some [1]
     \<and> map_option (map trend_failed o trends)
         (get_trends_over_time example_fromisoformat example_strftime ''hourly'' self) = Some [0]
     \<and> map_option trends
         (get_trends_over_time example_fromisoformat example_strftime ''weekly'' self)
         = Some [\<lparr>trend_period = ''2024-04-29'', trend_total = 1, trend_passed = 1,
                  trend_failed = 0, trend_skipped = 0, trend_pass_rate = 100\<rparr>])"
  using unparsable_timestamp_recent_not_trend [of example_fromisoformat
     "(default_test_result ''yesterday'')\<lparr>status := ''FAILED''\<rparr>"
     "add_results [(default_test_result ''2024-05-01T10:00:00'')\<lparr>status := ''PASSED''\<rparr>,
                   (default_test_result ''yesterday'')\<lparr>status := ''FAILED''\<rparr>] new_aggregator"
     "[(default_test_result ''2024-05-01T10:00:00'')\<lparr>status := ''PASSED''\<rparr>]" "[]"
     noon_may_3 example_strftime]
  by (simp add: Let_def add_results_def new_aggregator_def default_test_result_def
      example_fromisoformat_def example_strftime_def noon_may_3_def
      replace_Z_def get_recent_results_def recent_keep_def dt_ge_def dt_sub_def timedelta_hours_def
      get_summary_def calculate_trends_def Counter_def counter_get_def
      get_trends_over_time_def trends_list_def group_by_period_def period_step_def period_key_def
      bucket_count_def defaultdict_get_def new_bucket_def trend_of_def weekday_def timedelta_days_def)

section \<open>Slowest tests and filtering by status\<close>

lemma of_char_ascii_upper_char:
  "(of_char (ascii_upper_char c) :: nat) =
     (if 97 \<le> (of_char c :: nat) \<and> (of_char c :: nat) \<le> 122 then of_char c - 32 else of_char c)"
proof -
  have "(of_char c :: nat) < 256" by simp
  then have "(of_char c :: nat) - 32 < 256" by arith
  then have "((of_char c :: nat) - 32) mod 256 = of_char c - 32" by (rule mod_less)
  then show ?thesis by (simp add: ascii_upper_char_def Let_def)
qed

lemma ascii_upper_char_eq_iff:
  "ascii_upper_char a = ascii_upper_char b \<longleftrightarrow> same_char_ignoring_case a b"
proof -
  have "ascii_upper_char a = ascii_upper_char b
      \<longleftrightarrow> (of_char (ascii_upper_char a) :: nat) = of_char (ascii_upper_char b)"
    by simp
  also have "\<dots> \<longleftrightarrow> same_char_ignoring_case a b"
    unfolding of_char_ascii_upper_char same_char_ignoring_case_def Let_def
    using of_char_eq_iff [of a b, where ?'a = nat]
    by (auto simp del: of_char_eq_iff)
  finally show ?thesis .
qed

lemma ascii_upper_eq_iff: "ascii_upper s = ascii_upper t \<longleftrightarrow> equal_ignoring_case s t"
proof -
  have "ascii_upper s = ascii_upper t
      \<longleftrightarrow> list_all2 (=) (map ascii_upper_char s) (map ascii_upper_char t)"
    by (simp add: ascii_upper_def list.rel_eq)
  also have "\<dots> \<longleftrightarrow> list_all2 (\<lambda>a b. ascii_upper_char a = ascii_upper_char b) s t"
    by (simp only: list.rel_map)
  finally show ?thesis by (simp add: equal_ignoring_case_def ascii_upper_char_eq_iff [abs_def])
qed

lemma filter_by_upper_on_ascii:
  assumes up: "\<forall>t. is_ascii t \<longrightarrow> upper t = ascii_upper t"
      and s: "is_ascii s"
      and rs: "list_all (\<lambda>r. is_ascii (status r)) rs"
  shows "filter (\<lambda>r. upper (status r) = upper s) rs
       = filter (\<lambda>r. equal_ignoring_case (status r) s) rs"
proof (rule filter_cong [OF refl])
  fix r
  assume "r \<in> set rs"
  then have "is_ascii (status r)" using rs by (simp add: list_all_iff)
  then have "upper (status r) = ascii_upper (status r)" using up by blast
  moreover have "upper s = ascii_upper s" using up s by blast
  ultimately show "(upper (status r) = upper s) = equal_ignoring_case (status r) s"
    by (simp add: ascii_upper_eq_iff)
qed

lemma example_upper_on_ascii: "is_ascii t \<Longrightarrow> example_upper t = ascii_upper t"
  by (auto simp: example_upper_def is_ascii_def e_acute_def capital_e_acute_def)

lemma sorted_reverse_stable:
  "filter (\<lambda>y. key y = k) (sorted_reverse key xs) = filter (\<lambda>y. key y = k) xs"
proof -
  have "filter (\<lambda>y. key y = k) (sorted_reverse key xs)
      = rev (filter (\<lambda>y. key y = k) (sort_key key (rev xs)))"
    by (simp add: sorted_reverse_def rev_filter)
  also have "\<dots> = rev (filter (\<lambda>y. key y = k) (rev xs))"
    by (simp only: sort_key_stable)
  also have "\<dots> = filter (\<lambda>y. key y = k) xs"
    by (simp add: rev_filter)
  finally show ?thesis .
qed

lemma sorted_reverse_descending:
  "sorted_wrt (\<lambda>a b. key b \<le> key a) (sorted_reverse key xs)"
proof -
  have "sorted (map key (sort_key key (rev xs)))" by (rule sorted_sort_key)
  then have "sorted_wrt (\<lambda>a b. key a \<le> key b) (sort_key key (rev xs))"
    by (simp add: sorted_map)
  then show ?thesis
    by (simp add: sorted_reverse_def sorted_wrt_rev)
qed

lemma length_sorted_reverse: "length (sorted_reverse key xs) = length xs"
  by (simp add: sorted_reverse_def)

text \<open>
  Claim C8. For every list of aggregated records and every limit n \<ge> 0,
  \<open>get_slowest_tests n\<close> returns min(n, total) records whose durations are in
  non-increasing order, and records of equal duration appear in their input order: for
  each duration, the returned records of that duration are the first ones of the input
  with that duration, in input order.
\<close>

theorem slowest_tests_sorted_stable:
  "0 \<le> n \<Longrightarrow>
     length (get_slowest_tests n self) = min (nat n) (length (results self))
   \<and> sorted_wrt (\<lambda>a b. duration b \<le> duration a) (get_slowest_tests n self)
   \<and> (\<forall>d. prefix (filter (\<lambda>r. duration r = d) (get_slowest_tests n self))
                  (filter (\<lambda>r. duration r = d) (results self)))"
proof -
  assume n: "0 \<le> n"
  let ?sorted = "sorted_reverse duration (results self)"
  have slow: "get_slowest_tests n self = take (nat n) ?sorted"
    using n by (simp add: get_slowest_tests_def slice_to_def)
  have len: "length (get_slowest_tests n self) = min (nat n) (length (results self))"
    unfolding slow by (simp add: length_sorted_reverse min.commute)
  have desc: "sorted_wrt (\<lambda>a b. duration b \<le> duration a) (get_slowest_tests n self)"
    unfolding slow using sorted_reverse_descending [of duration "results self"]
    by (rule sorted_wrt_take)
  have stable: "prefix (filter (\<lambda>r. duration r = d) (get_slowest_tests n self))
                  (filter (\<lambda>r. duration r = d) (results self))" for d
  proof -
    have "prefix (filter (\<lambda>r. duration r = d) (take (nat n) ?sorted))
                 (filter (\<lambda>r. duration r = d) ?sorted)"
      by (rule filter_mono_prefix) (rule take_is_prefix)
    then show ?thesis unfolding slow by (simp only: sorted_reverse_stable)
  qed
  show ?thesis using len desc stable by blast
qed

text \<open>
  Durations 2, 5, 2, 5 for the records a, b, c, d: the three slowest are b, d, a.
\<close>

theorem slowest_tests_sorted_stable_witness:
  "(let self = add_results
        [(default_test_result ''2024-05-01T10:00:00'')\<lparr>name := ''a'', duration := 2\<rparr>,
         (default_test_result ''2024-05-01T10:00:00'')\<lparr>name := ''b'', duration := 5\<rparr>,
         (default_test_result ''2024-05-01T10:00:00'')\<lparr>name := ''c'', duration := 2\<rparr>,
         (default_test_result ''2024-05-01T10:00:00'')\<lparr>name := ''d'', duration := 5\<rparr>] new_aggregator
    in (0::int) \<le> 3
     \<and> map name (get_slowest_tests 3 self) = [''b'', ''d'', ''a'']
     \<and> length (get_slowest_tests 3 self) = min (nat 3) (length (results self)))"
  using slowest_tests_sorted_stable [of 3 "add_results
        [(default_test_result ''2024-05-01T10:00:00'')\<lparr>name := ''a'', duration := 2\<rparr>,
         (default_test_result ''2024-05-01T10:00:00'')\<lparr>name := ''b'', duration := 5\<rparr>,
         (default_test_result ''2024-05-01T10:00:00'')\<lparr>name := ''c'', duration := 2\<rparr>,
         (default_test_result ''2024-05-01T10:00:00'')\<lparr>name := ''d'', duration := 5\<rparr>] new_aggregator"]
  by (simp add: Let_def add_results_def new_aggregator_def default_test_result_def
      get_slowest_tests_def slice_to_def sorted_reverse_def)

text \<open>
  Claim C9, as stated: for every query string s, \<open>get_tests_by_status s\<close> returns exactly
  the records whose status equals s up to ASCII case. This fails beyond ASCII, where
  \<open>str.upper()\<close> folds letters too: the record with status e-acute is returned for the
  query capital E-acute, and the two texts are not equal up to ASCII case.
\<close>

theorem tests_by_status_non_ascii_counterexample:
  "map status (get_tests_by_status example_upper capital_e_acute accent_aggregator) = [e_acute]
   \<and> \<not> equal_ignoring_case e_acute capital_e_acute"
  by (simp add: get_tests_by_status_def example_upper_def accent_aggregator_def add_results_def
      new_aggregator_def default_test_result_def equal_ignoring_case_def
      same_char_ignoring_case_def e_acute_def capital_e_acute_def)

text \<open>
  Claim C9, amended. For every list of aggregated records and every query string s,
  \<open>get_tests_by_status s\<close> returns exactly the records, in input order, whose status
  upper-cased by \<open>str.upper()\<close> equals s upper-cased; when s and every stored status are
  ASCII text, on which \<open>str.upper()\<close> moves a to z to A to Z and nothing else, these are
  exactly the records whose status equals s up to ASCII case. The summary counts a record
  as passed, failed, skipped or error only when its status is exactly PASSED, FAILED,
  SKIPPED or ERROR.
\<close>

theorem tests_by_status_ignores_case:
  "get_tests_by_status upper s self = filter (\<lambda>r. upper (status r) = upper s) (results self)
   \<and> ((\<forall>t. is_ascii t \<longrightarrow> upper t = ascii_upper t) \<and> is_ascii s
          \<and> list_all (\<lambda>r. is_ascii (status r)) (results self)
        \<longrightarrow> get_tests_by_status upper s self
              = filter (\<lambda>r. equal_ignoring_case (status r) s) (results self))
   \<and> passed (get_summary fromisoformat now self) = length (filter (\<lambda>r. status r = ''PASSED'') (results self))
   \<and> failed (get_summary fromisoformat now self) = length (filter (\<lambda>r. status r = ''FAILED'') (results self))
   \<and> skipped (get_summary fromisoformat now self) = length (filter (\<lambda>r. status r = ''SKIPPED'') (results self))
   \<and> errors (get_summary fromisoformat now self) = length (filter (\<lambda>r. status r = ''ERROR'') (results self))"
proof -
  have general: "get_tests_by_status upper s self
      = filter (\<lambda>r. upper (status r) = upper s) (results self)"
    by (simp add: get_tests_by_status_def)
  have ascii: "get_tests_by_status upper s self
      = filter (\<lambda>r. equal_ignoring_case (status r) s) (results self)"
    if "\<forall>t. is_ascii t \<longrightarrow> upper t = ascii_upper t" and "is_ascii s"
      and "list_all (\<lambda>r. is_ascii (status r)) (results self)"
    unfolding general using that by (rule filter_by_upper_on_ascii)
  have counts:
    "passed (get_summary fromisoformat now self) = length (filter (\<lambda>r. status r = ''PASSED'') (results self))"
    "failed (get_summary fromisoformat now self) = length (filter (\<lambda>r. status r = ''FAILED'') (results self))"
    "skipped (get_summary fromisoformat now self) = length (filter (\<lambda>r. status r = ''SKIPPED'') (results self))"
    "errors (get_summary fromisoformat now self) = length (filter (\<lambda>r. status r = ''ERROR'') (results self))"
    by (simp_all add: get_summary_counts filter_map comp_def)
  show ?thesis using general ascii counts by blast
qed

text \<open>
  Statuses \<open>passed\<close>, \<open>FAILED\<close>, \<open>Passed\<close>, all ASCII: the query PASSED finds the first
  and the third record, and the summary counts no passed record.
\<close>

theorem tests_by_status_ignores_case_witness:
  "(let self = add_results
        [(default_test_result ''2024-05-01T10:00:00'')\<lparr>name := ''a'', status := ''passed''\<rparr>,
         (default_test_result ''2024-05-01T10:00:00'')\<lparr>name := ''b'', status := ''FAILED''\<rparr>,
         (default_test_result ''2024-05-01T10:00:00'')\<lparr>name := ''c'', status := ''Passed''\<rparr>] new_aggregator
    in is_ascii ''PASSED'' \<and> list_all (\<lambda>r. is_ascii (status r)) (results self)
     \<and> map name (get_tests_by_status example_upper ''PASSED'' self) = [''a'', ''c'']
     \<and> passed (get_summary example_fromisoformat noon_may_1 self) = 0)"
proof -
  have up: "\<forall>t. is_ascii t \<longrightarrow> example_upper t = ascii_upper t"
    using example_upper_on_ascii by blast
  show ?thesis
    using tests_by_status_ignores_case [of example_upper "''PASSED''" "add_results
        [(default_test_result ''2024-05-01T10:00:00'')\<lparr>name := ''a'', status := ''passed''\<rparr>,
         (default_test_result ''2024-05-01T10:00:00'')\<lparr>name := ''b'', status := ''FAILED''\<rparr>,
         (default_test_result ''2024-05-01T10:00:00'')\<lparr>name := ''c'', status := ''Passed''\<rparr>] new_aggregator"
       example_fromisoformat noon_may_1] up
    by (simp add: Let_def add_results_def new_aggregator_def default_test_result_def
        is_ascii_def ascii_upper_eq_iff equal_ignoring_case_def same_char_ignoring_case_def)
qed

section \<open>The status of a JUnit test case\<close>

lemma map_of_dict_set: "map_of (dict_set d k v) k' = (if k' = k then Some v else map_of d k')"
  by (induction d) auto

lemma status_of_result_data:
  assumes "testcase_result_data float_of_str testcase = Inr data"
  shows "map_of data ''status'' =
          Some (PStr (if find_child ''skipped'' testcase \<noteq> None then ''SKIPPED''
                else if find_child ''failure'' testcase \<noteq> None then ''FAILED''
                else if find_child ''error'' testcase \<noteq> None then ''ERROR''
                else ''PASSED''))"
proof (cases "case map_of (elem_attrib testcase) ''time'' of None \<Rightarrow> Some 0 | Some t \<Rightarrow> float_of_str t")
  case None
  then show ?thesis using assms by (simp add: testcase_result_data_def)
next
  case (Some time)
  then have "data =
     (let result_data =
            [(''id'', PStr (attrib_get testcase ''name'' [])),
             (''name'', PStr (attrib_get testcase ''name'' [])),
             (''suite'', PStr (attrib_get testcase ''classname'' [])),
             (''duration'', PFloat time),
             (''status'', PStr ''PASSED'')];
          result_data =
            (case find_child ''failure'' testcase of
               Some failure_el \<Rightarrow>
                 dict_set (dict_set result_data ''status'' (PStr ''FAILED''))
                   ''error_details'' (text_value failure_el)
             | None \<Rightarrow>
                 (case find_child ''error'' testcase of
                    Some error_el \<Rightarrow>
                      dict_set (dict_set result_data ''status'' (PStr ''ERROR''))
                        ''error_details'' (text_value error_el)
                  | None \<Rightarrow> result_data));
          result_data =
            (case find_child ''skipped'' testcase of
               Some skipped_el \<Rightarrow>
                 dict_set (dict_set result_data ''status'' (PStr ''SKIPPED''))
                   ''message'' (PStr (attrib_get skipped_el ''message'' []))
             | None \<Rightarrow> result_data)
      in result_data)"
    using assms by (simp add: testcase_result_data_def Let_def)
  then show ?thesis
    by (simp add: Let_def map_of_dict_set split: option.splits)
qed

lemma result_data_raises:
  "testcase_result_data float_of_str testcase = Inl e \<Longrightarrow>
     e = ValueError \<and> (\<exists>t. map_of (elem_attrib testcase) ''time'' = Some t \<and> float_of_str t = None)"
  by (simp add: testcase_result_data_def Let_def split: option.splits)

text \<open>
  Claim C2. For every JUnit test case element the status is settled by three checks in
  the order failure, error, skipped: the error check runs only when there is no failure
  child, and the skipped check runs last in every case and overwrites what the earlier
  checks set. So the status is SKIPPED when a skipped child is present, otherwise FAILED
  when a failure child is present, otherwise ERROR when an error child is present,
  otherwise PASSED; in particular a test case with both an error and a skipped child
  gets SKIPPED. The only way the element yields no record is a \<open>time\<close> attribute that
  is not a number, which raises.
\<close>

theorem junit_status_precedence:
  "(case testcase_result_data float_of_str testcase of
      Inl e \<Rightarrow>
        e = ValueError
        \<and> (\<exists>t. map_of (elem_attrib testcase) ''time'' = Some t \<and> float_of_str t = None)
    | Inr data \<Rightarrow>
        from_dict_status data =
          PStr (if find_child ''skipped'' testcase \<noteq> None then ''SKIPPED''
                else if find_child ''failure'' testcase \<noteq> None then ''FAILED''
                else if find_child ''error'' testcase \<noteq> None then ''ERROR''
                else ''PASSED'')
        \<and> (find_child ''error'' testcase \<noteq> None \<and> find_child ''skipped'' testcase \<noteq> None
              \<longrightarrow> from_dict_status data = PStr ''SKIPPED''))"
proof (cases "testcase_result_data float_of_str testcase")
  case (Inl e)
  then show ?thesis using result_data_raises [OF Inl] by simp
next
  case (Inr data)
  then show ?thesis using status_of_result_data [OF Inr]
    by (simp add: from_dict_status_def dict_get_def)
qed

text \<open>
  A test case with an error child followed by a skipped child, and the same with a
  failure child in front: both get SKIPPED.
\<close>

theorem junit_status_precedence_witness:
  "(let float_of_str = (\<lambda>s. if s = ''1.5'' then Some (3 / 2) else None);
        error_el = Element ''error'' [] (Some ''boom'') [];
        skipped_el = Element ''skipped'' [(''message'', ''not run'')] None [];
        failure_el = Element ''failure'' [] (Some ''expected 1'') [];
        attrs = [(''name'', ''test_login''), (''classname'', ''auth''), (''time'', ''1.5'')]
    in find_child ''error'' (Element ''testcase'' attrs None [error_el, skipped_el]) \<noteq> None
     \<and> find_child ''skipped'' (Element ''testcase'' attrs None [error_el, skipped_el]) \<noteq> None
     \<and> map_sum id from_dict_status
         (testcase_result_data float_of_str (Element ''testcase'' attrs None [error_el, skipped_el]))
         = Inr (PStr ''SKIPPED'')
     \<and> map_sum id from_dict_status
         (testcase_result_data float_of_str (Element ''testcase'' attrs None [failure_el, error_el, skipped_el]))
         = Inr (PStr ''SKIPPED'')
     \<and> map_sum id from_dict_status
         (testcase_result_data float_of_str (Element ''testcase'' attrs None [error_el, failure_el]))
         = Inr (PStr ''FAILED''))"
  using junit_status_precedence [where float_of_str = "\<lambda>s. if s = ''1.5'' then Some (3 / 2) else None"
      and testcase = "Element ''testcase'' [(''name'', ''test_login''), (''classname'', ''auth''), (''time'', ''1.5'')] None
          [Element ''error'' [] (Some ''boom'') [], Element ''skipped'' [(''message'', ''not run'')] None []]"]
    junit_status_precedence [where float_of_str = "\<lambda>s. if s = ''1.5'' then Some (3 / 2) else None"
      and testcase = "Element ''testcase'' [(''name'', ''test_login''), (''classname'', ''auth''), (''time'', ''1.5'')] None
          [Element ''failure'' [] (Some ''expected 1'') [], Element ''error'' [] (Some ''boom'') [],
           Element ''skipped'' [(''message'', ''not run'')] None []]"]
    junit_status_precedence [where float_of_str = "\<lambda>s. if s = ''1.5'' then Some (3 / 2) else None"
      and testcase = "Element ''testcase'' [(''name'', ''test_login''), (''classname'', ''auth''), (''time'', ''1.5'')] None
          [Element ''error'' [] (Some ''boom'') [], Element ''failure'' [] (Some ''expected 1'') []]"]
  by (simp add: Let_def testcase_result_data_def find_child_def split: sum.splits)

section \<open>Metrics and analytics on the empty record set\<close>

text \<open>
  Claim C6, as stated: for the empty record set every metric and analytics function
  returns \<open>{'error': 'No test results available'}\<close>. \<open>analyze_failure_patterns\<close> does
  not: its guard is on the failed tests and returns another dictionary.
\<close>

theorem empty_input_sentinel_counterexample:
  "analyze_failure_patterns example_analysis []
     \<noteq> Inr (PDict [(''error'', PStr ''No test results available'')])"
  by (simp add: analyze_failure_patterns_def)

text \<open>
  Claim C6, amended. For the empty record set, each of the seven \<open>calculate_...\<close>
  functions of the metrics calculator and \<open>analyze_performance\<close> and
  \<open>analyze_test_quality\<close> of the analytics engine returns
  \<open>{'error': 'No test results available'}\<close>; \<open>analyze_failure_patterns\<close> returns
  \<open>{'message': 'No failed tests to analyze'}\<close> and \<open>analyze_trends\<close> returns
  \<open>{'error': 'No test results available for trend analysis'}\<close>. None of them raises,
  whatever the computation behind the guard is.
\<close>

theorem empty_input_sentinels:
  "calculate_execution_metrics b1 [] = Inr (PDict [(''error'', PStr ''No test results available'')])
 \<and> calculate_quality_metrics b2 [] = Inr (PDict [(''error'', PStr ''No test results available'')])
 \<and> calculate_performance_metrics b3 [] = Inr (PDict [(''error'', PStr ''No test results available'')])
 \<and> calculate_coverage_metrics b4 [] = Inr (PDict [(''error'', PStr ''No test results available'')])
 \<and> calculate_trend_metrics b5 [] = Inr (PDict [(''error'', PStr ''No test results available'')])
 \<and> calculate_comparative_metrics b6 [] = Inr (PDict [(''error'', PStr ''No test results available'')])
 \<and> calculate_kpi_summary b7 [] = Inr (PDict [(''error'', PStr ''No test results available'')])
 \<and> analyze_performance b8 [] = Inr (PDict [(''error'', PStr ''No test results available'')])
 \<and> analyze_test_quality b9 [] = Inr (PDict [(''error'', PStr ''No test results available'')])
 \<and> analyze_failure_patterns b10 [] = Inr (PDict [(''message'', PStr ''No failed tests to analyze'')])
 \<and> analyze_trends filter_by_time_period b11 time_period [] =
       Inr (PDict [(''error'', PStr ''No test results available for trend analysis'')])"
  by (simp add: calculate_execution_metrics_def calculate_quality_metrics_def
      calculate_performance_metrics_def calculate_coverage_metrics_def calculate_trend_metrics_def
      calculate_comparative_metrics_def calculate_kpi_summary_def analyze_performance_def
      analyze_test_quality_def analyze_failure_patterns_def analyze_trends_def no_results_def)

section \<open>The notifier: trigger conditions and the empty record list\<close>

lemma summary_keys:
  assumes "calculate_summary now_iso test_results = Inr s"
  shows "map fst s = [''total'', ''passed'', ''failed'', ''skipped'', ''pass_rate'',
           ''total_duration'', ''failure_rate'', ''failed_tests'', ''slow_tests'', ''timestamp'']"
  using assms by (auto simp: calculate_summary_def Let_def split: sum.splits)

lemma no_condition_key:
  assumes "k \<in> {''total'', ''passed'', ''failed'', ''skipped'', ''pass_rate'',
           ''total_duration'', ''failure_rate'', ''failed_tests'', ''slow_tests'', ''timestamp''}"
  shows "\<not> suffix ''_threshold'' k \<and> \<not> prefix ''min_'' k \<and> \<not> prefix ''max_'' k"
  using assms by (auto simp: suffix_to_prefix)

lemma check_trigger_conditions_no_key:
  assumes "\<forall>k \<in> fst ` set s. \<not> suffix ''_threshold'' k \<and> \<not> prefix ''min_'' k \<and> \<not> prefix ''max_'' k"
  shows "check_trigger_conditions s conditions = Inr True"
proof (induction conditions)
  case Nil
  show ?case by simp
next
  case (Cons c conditions)
  obtain condition threshold where c: "c = (condition, threshold)" by (cases c)
  show ?case
  proof (cases "map_of s condition")
    case None
    then show ?thesis using Cons c by simp
  next
    case (Some v)
    then have "(condition, v) \<in> set s" by (rule map_of_SomeD)
    then have "condition \<in> fst ` set s" by force
    then have "\<not> suffix ''_threshold'' condition \<and> \<not> prefix ''min_'' condition
        \<and> \<not> prefix ''max_'' condition"
      using assms by blast
    then show ?thesis using Cons c Some by (simp split: pyval.splits)
  qed
qed

text \<open>
  No key of a summary built by \<open>_calculate_summary\<close> ends in \<open>_threshold\<close> or starts
  with \<open>min_\<close> or \<open>max_\<close>, and a condition is looked up under its own name: on such a
  summary every set of trigger conditions is met.
\<close>

lemma computed_summary_meets_all_conditions:
  assumes "calculate_summary now_iso test_results = Inr s"
  shows "check_trigger_conditions s conditions = Inr True"
proof (rule check_trigger_conditions_no_key)
  have "fst ` set s = set (map fst s)" by simp
  also have "\<dots> = {''total'', ''passed'', ''failed'', ''skipped'', ''pass_rate'',
           ''total_duration'', ''failure_rate'', ''failed_tests'', ''slow_tests'', ''timestamp''}"
    unfolding summary_keys [OF assms] by simp
  finally show "\<forall>k \<in> fst ` set s. \<not> suffix ''_threshold'' k \<and> \<not> prefix ''min_'' k
      \<and> \<not> prefix ''max_'' k"
    using no_condition_key by blast
qed

text \<open>
  The notifier with its default rules and the rule \<open>many_failures_rule\<close>, given two
  failed records at noon of May 1 in the example world.
\<close>

lemma send_two_failed:
  "send_test_results_notification example_world noon_may_1
      (add_rule many_failures_rule (new_notification_system [])) two_failed None
   = \<lparr>returned = Inr
        [\<lparr>success = False, channel = ''email'', result_message = Some ''not configured'',
          result_timestamp = noon_may_1, result_error_details = Some ''not configured''\<rparr>,
         \<lparr>success = True, channel = ''console'', result_message = Some ''Notification sent successfully'',
          result_timestamp = noon_may_1, result_error_details = None\<rparr>,
         \<lparr>success = True, channel = ''console'', result_message = Some ''Notification sent successfully'',
          result_timestamp = noon_may_1, result_error_details = None\<rparr>,
         \<lparr>success = True, channel = ''console'', result_message = Some ''Notification sent successfully'',
          result_timestamp = noon_may_1, result_error_details = None\<rparr>],
      system_after =
        \<lparr>config = [], rules = default_rules @ [many_failures_rule], notification_history = [],
         last_notification_times =
           [(''Success Notification'', noon_may_1), (''Performance Issues'', noon_may_1),
            (''Many failures'', noon_may_1)]\<rparr>,
      rules_evaluated = default_rules @ [many_failures_rule],
      attempted =
        [(EMAIL, ''rendered failure_alert''), (CONSOLE, ''rendered success_notification''),
         (CONSOLE, ''rendered performance_alert''), (CONSOLE, ''rendered failure_alert'')]\<rparr>"
  by (simp add: send_test_results_notification_def example_world_def add_rule_def
      new_notification_system_def default_rules_def many_failures_rule_def two_failed_def
      calculate_summary_def Let_def status_is_def dict_get_def py_add_def py_gt_def py_lt_def
      py_or_def priority_exceeds_threshold_def should_send_notification_def send_notification_def
      record_notification_def suffix_to_prefix)

text \<open>
  Claim C1 says that a rule with the trigger condition \<open>min_failures\<close> = 3 does not
  fire on a summary with two failed tests. The code at that input: two failed records
  give a summary with \<open>failed\<close> = 2; the condition \<open>min_failures\<close> is looked up in the
  summary under the name \<open>min_failures\<close>, which the summary does not have, and is passed
  over; the trigger conditions are reported as met, \<open>_evaluate_rules\<close> returns the rule
  as applicable, its message goes to the console and its send time is recorded.
\<close>

theorem min_failures_condition_is_passed_over:
  "(case calculate_summary ''2024-05-01T12:00:00'' two_failed of
      Inl e \<Rightarrow> False
    | Inr s \<Rightarrow>
        map_of s ''failed'' = Some (PInt 2)
      \<and> map_of s ''min_failures'' = None
      \<and> check_trigger_conditions s [(''min_failures'', NInt 3)] = Inr True
      \<and> evaluate_rules s [many_failures_rule] = Inr [many_failures_rule])
   \<and> last (attempted (send_test_results_notification example_world noon_may_1
        (add_rule many_failures_rule (new_notification_system [])) two_failed None))
       = (CONSOLE, ''rendered failure_alert'')
   \<and> map_of (last_notification_times (system_after (send_test_results_notification example_world
        noon_may_1 (add_rule many_failures_rule (new_notification_system [])) two_failed None)))
        ''Many failures'' = Some noon_may_1"
proof -
  have "(case calculate_summary ''2024-05-01T12:00:00'' two_failed of
      Inl e \<Rightarrow> False
    | Inr s \<Rightarrow>
        map_of s ''failed'' = Some (PInt 2)
      \<and> map_of s ''min_failures'' = None
      \<and> check_trigger_conditions s [(''min_failures'', NInt 3)] = Inr True
      \<and> evaluate_rules s [many_failures_rule] = Inr [many_failures_rule])"
    by (simp add: calculate_summary_def Let_def status_is_def dict_get_def py_add_def py_gt_def
        py_lt_def py_or_def priority_exceeds_threshold_def two_failed_def many_failures_rule_def)
  then show ?thesis by (simp add: send_two_failed)
qed

text \<open>
  Claim C10. For every notifier state, \<open>send_test_results_notification\<close> with an empty
  record list returns the empty list, hands no rule to the rule evaluation, hands no
  message to any transport, and leaves the notifier (its rules, its rate-limit map
  \<open>last_notification_times\<close>, its history and its configuration) as it was.
\<close>

theorem empty_results_send_nothing:
  "send_test_results_notification world now self [] custom_rules =
     \<lparr>returned = Inr [], system_after = self, rules_evaluated = [], attempted = []\<rparr>
   \<and> rules (system_after (send_test_results_notification world now self [] custom_rules)) = rules self
   \<and> last_notification_times (system_after (send_test_results_notification world now self [] custom_rules))
       = last_notification_times self
   \<and> notification_history (system_after (send_test_results_notification world now self [] custom_rules))
       = notification_history self"
  by (simp add: send_test_results_notification_def)

text \<open>
  The notifier with its default rules in the example world: nothing happens on the empty
  list, whereas two failed records have the three rules evaluated and three messages
  handed to a transport.
\<close>

theorem empty_results_send_nothing_witness:
  "returned (send_test_results_notification example_world noon_may_1 (new_notification_system []) [] None)
     = Inr []
   \<and> system_after (send_test_results_notification example_world noon_may_1 (new_notification_system []) [] None)
     = new_notification_system []
   \<and> rules_evaluated (send_test_results_notification example_world noon_may_1 (new_notification_system []) [] None)
     = []
   \<and> attempted (send_test_results_notification example_world noon_may_1 (new_notification_system []) [] None)
     = []
   \<and> rules_evaluated (send_test_results_notification example_world noon_may_1
        (add_rule many_failures_rule (new_notification_system [])) two_failed None)
     = default_rules @ [many_failures_rule]
   \<and> length (attempted (send_test_results_notification example_world noon_may_1
        (add_rule many_failures_rule (new_notification_system [])) two_failed None)) = 4"
  using empty_results_send_nothing [of example_world noon_may_1 "new_notification_system []" None]
  by (simp add: send_two_failed)

end
